theory Spec2Isabelle
  imports Complex_Main
begin

section \<open>The document store (services/database.py)\<close>

text \<open>
  \<^verbatim>\<open>DatabaseService\<close> wraps one container per entity kind. A container is modelled as
  the list of its documents in insertion order. Every document carries the two keys
  the store itself reads, \<^verbatim>\<open>id\<close> and \<^verbatim>\<open>partitionKey\<close>, and the entity's own fields.
  The bookkeeping stamps \<^verbatim>\<open>created_at\<close> and \<^verbatim>\<open>updated_at\<close> are written by the store and
  read by none of the operations below; they are left out, as are payload fields that no
  operation below reads.

  A query is the sublist of the documents that satisfy its WHERE clause.
  \<^verbatim>\<open>read_item(id, partition_key)\<close> finds the document with that id in that partition;
  \<^verbatim>\<open>replace_item(id, item)\<close> overwrites the document with that id in the partition
  named by the new body. \<^verbatim>\<open>str(uuid.uuid4())\<close> is an input of \<open>create_item\<close>.
\<close>

type_synonym ident = string

text \<open>
  Time stamps are \<^verbatim>\<open>datetime.utcnow().isoformat()\<close> strings, compared as strings by the
  code; that order is the order of the instants, which are counted here in microseconds.
\<close>

type_synonym timestamp = nat

datatype error =
    ValueError string
  | ValidationError

record 'b doc =
  item_id :: ident
  partitionKey :: ident
  body :: 'b

definition query_items :: "'b doc list \<Rightarrow> ('b doc \<Rightarrow> bool) \<Rightarrow> 'b doc list" where
  "query_items container wh = filter wh container"

definition create_item :: "'b doc list \<Rightarrow> ident \<Rightarrow> ident \<Rightarrow> 'b \<Rightarrow> 'b doc \<times> 'b doc list" where
  "create_item container new_id pk content =
     (let item = \<lparr>item_id = new_id, partitionKey = pk, body = content\<rparr>
      in (item, container @ [item]))"

definition get_item :: "'b doc list \<Rightarrow> ident \<Rightarrow> ident \<Rightarrow> 'b doc option" where
  "get_item container iid pk =
     find (\<lambda>d. item_id d = iid \<and> partitionKey d = pk) container"

definition replace_item :: "'b doc list \<Rightarrow> ident \<Rightarrow> 'b doc \<Rightarrow> 'b doc list" where
  "replace_item container iid item =
     map (\<lambda>d. if item_id d = iid \<and> partitionKey d = partitionKey item then item else d)
       container"

definition update_item ::
  "'b doc list \<Rightarrow> ident \<Rightarrow> ident \<Rightarrow> ('b \<Rightarrow> 'b) \<Rightarrow> (error + 'b doc) \<times> 'b doc list" where
  "update_item container iid pk updates =
     (case get_item container iid pk of
        None \<Rightarrow> (Inl (ValueError (''Item '' @ iid @ '' not found'')), container)
      | Some item \<Rightarrow>
          (let item' = item\<lparr>body := updates (body item)\<rparr>
           in (Inr item', replace_item container iid item')))"

text \<open>Identifiers come from \<^verbatim>\<open>uuid4\<close>: no two documents of a container share one.\<close>

definition unique_ids :: "'b doc list \<Rightarrow> bool" where
  "unique_ids container = distinct (map item_id container)"

text \<open>
  Where identifiers are unique, a successful \<open>update_item\<close> changes the body of the one
  document with that id and nothing else; \<open>amend\<close> names that container.
\<close>

definition amend :: "'b doc list \<Rightarrow> ident \<Rightarrow> ('b \<Rightarrow> 'b) \<Rightarrow> 'b doc list" where
  "amend c iid f = map (\<lambda>x. if item_id x = iid then x\<lparr>body := f (body x)\<rparr> else x) c"

section \<open>Lobbies (models/lobby.py, services/lobby_service.py)\<close>

datatype lobby_status = Waiting | InGame | Completed | Cancelled

record lobby =
  name :: string
  creator_id :: ident
  dungeon_id :: ident
  max_players :: int
  current_players :: int
  is_public :: bool
  password :: "string option"
  status :: lobby_status
  started_at :: "timestamp option"
  completed_at :: "timestamp option"

record invite =
  lobby_id :: ident
  inviter_id :: ident
  invitee_id :: ident
  expires_at :: timestamp
  is_accepted :: "bool option"

text \<open>
  \<^verbatim>\<open>lobbies_container\<close> holds the lobby documents and, written by
  \<^verbatim>\<open>create_lobby_invite\<close>, the invite documents.
\<close>

datatype lobby_fields = LobbyFields lobby | InviteFields invite

type_synonym lobbies_container = "lobby_fields doc list"

text \<open>
  A dictionary update with lobby keys changes a lobby document; on an invite document
  it would only add keys that nothing reads (and the other way round).
\<close>

fun on_lobby :: "(lobby \<Rightarrow> lobby) \<Rightarrow> lobby_fields \<Rightarrow> lobby_fields" where
  "on_lobby f (LobbyFields l) = LobbyFields (f l)"
| "on_lobby f (InviteFields i) = InviteFields i"

fun on_invite :: "(invite \<Rightarrow> invite) \<Rightarrow> lobby_fields \<Rightarrow> lobby_fields" where
  "on_invite f (InviteFields i) = InviteFields (f i)"
| "on_invite f (LobbyFields l) = LobbyFields l"

text \<open>Python's truth value of an \<^verbatim>\<open>Optional[str]\<close>: \<^verbatim>\<open>None\<close> and \<^verbatim>\<open>""\<close> are false.\<close>

fun truthy :: "string option \<Rightarrow> bool" where
  "truthy None = False"
| "truthy (Some s) = (s \<noteq> [])"

definition create_lobby ::
  "lobbies_container \<Rightarrow> ident \<Rightarrow> string \<Rightarrow> ident \<Rightarrow> int \<Rightarrow> bool \<Rightarrow> string option \<Rightarrow> ident
     \<Rightarrow> lobby_fields doc \<times> lobbies_container" where
  "create_lobby c new_id nm did maxp pub pw cid =
     create_item c new_id cid
       (LobbyFields \<lparr>name = nm, creator_id = cid, dungeon_id = did, max_players = maxp,
          current_players = 1, is_public = pub, password = pw, status = Waiting,
          started_at = None, completed_at = None\<rparr>)"

text \<open>
  \<^verbatim>\<open>Lobby(**lobbies[0])\<close> raises a validation error on a document that lacks the
  required lobby fields, which is every invite document.
\<close>

definition get_lobby_by_id :: "lobbies_container \<Rightarrow> ident \<Rightarrow> error + lobby option" where
  "get_lobby_by_id c lid =
     (case query_items c (\<lambda>d. item_id d = lid) of
        [] \<Rightarrow> Inr None
      | d # _ \<Rightarrow>
          (case body d of
             LobbyFields l \<Rightarrow> Inr (Some l)
           | InviteFields _ \<Rightarrow> Inl ValidationError))"

definition join_lobby ::
  "lobbies_container \<Rightarrow> ident \<Rightarrow> ident \<Rightarrow> string option \<Rightarrow> (error + bool) \<times> lobbies_container" where
  "join_lobby c lid uid pw =
     (case get_lobby_by_id c lid of
        Inl e \<Rightarrow> (Inl e, c)
      | Inr None \<Rightarrow> (Inr False, c)
      | Inr (Some l) \<Rightarrow>
          if lobby.status l \<noteq> Waiting then (Inr False, c)
          else if lobby.current_players l \<ge> lobby.max_players l then (Inr False, c)
          else if truthy (lobby.password l) \<and> lobby.password l \<noteq> pw then (Inr False, c)
          else
            (case update_item c lid (lobby.creator_id l)
                    (on_lobby (\<lambda>x. x\<lparr>lobby.current_players := lobby.current_players l + 1\<rparr>)) of
               (Inl e, c') \<Rightarrow> (Inl e, c')
             | (Inr _, c') \<Rightarrow> (Inr True, c')))"

definition leave_lobby ::
  "lobbies_container \<Rightarrow> ident \<Rightarrow> ident \<Rightarrow> (error + bool) \<times> lobbies_container" where
  "leave_lobby c lid uid =
     (case get_lobby_by_id c lid of
        Inl e \<Rightarrow> (Inl e, c)
      | Inr None \<Rightarrow> (Inr False, c)
      | Inr (Some l) \<Rightarrow>
          if lobby.status l \<noteq> Waiting then (Inr False, c)
          else
            (case update_item c lid (lobby.creator_id l)
                    (on_lobby (\<lambda>x. x\<lparr>lobby.current_players :=
                                        max 0 (lobby.current_players l - 1)\<rparr>)) of
               (Inl e, c') \<Rightarrow> (Inl e, c')
             | (Inr _, c') \<Rightarrow> (Inr True, c')))"

definition start_lobby ::
  "lobbies_container \<Rightarrow> ident \<Rightarrow> ident \<Rightarrow> timestamp \<Rightarrow> (error + bool) \<times> lobbies_container" where
  "start_lobby c lid cid now =
     (case get_lobby_by_id c lid of
        Inl e \<Rightarrow> (Inl e, c)
      | Inr None \<Rightarrow> (Inr False, c)
      | Inr (Some l) \<Rightarrow>
          if lobby.creator_id l \<noteq> cid then (Inr False, c)
          else if lobby.status l \<noteq> Waiting then (Inr False, c)
          else if lobby.current_players l < 1 then (Inr False, c)
          else
            (case update_item c lid cid
                    (on_lobby (\<lambda>x. x\<lparr>lobby.status := InGame, started_at := Some now\<rparr>)) of
               (Inl e, c') \<Rightarrow> (Inl e, c')
             | (Inr _, c') \<Rightarrow> (Inr True, c')))"

definition create_lobby_invite ::
  "lobbies_container \<Rightarrow> ident \<Rightarrow> ident \<Rightarrow> ident \<Rightarrow> ident \<Rightarrow> timestamp
     \<Rightarrow> (error + lobby_fields doc) \<times> lobbies_container" where
  "create_lobby_invite c new_id lid inviter invitee now =
     (case get_lobby_by_id c lid of
        Inl e \<Rightarrow> (Inl e, c)
      | Inr None \<Rightarrow> (Inl (ValueError ''Lobby not found''), c)
      | Inr (Some l) \<Rightarrow>
          if lobby.creator_id l \<noteq> inviter
            then (Inl (ValueError ''Only lobby creator can invite players''), c)
          else if lobby.status l \<noteq> Waiting
            then (Inl (ValueError ''Can only invite to waiting lobbies''), c)
          else if lobby.current_players l \<ge> lobby.max_players l
            then (Inl (ValueError ''Lobby is full''), c)
          else
            (case create_item c new_id lid
                    (InviteFields \<lparr>lobby_id = lid, inviter_id = inviter, invitee_id = invitee,
                       expires_at = now + 24 * 3600 * 1000000, is_accepted = None\<rparr>) of
               (item, c') \<Rightarrow> (Inr item, c')))"

text \<open>
  The listing's WHERE clause matches invite documents only: a lobby has no invitee. Its
  \<^verbatim>\<open>ORDER BY c.created_at DESC\<close> puts the newest first, the reverse of the order of
  creation.
\<close>

fun pending_invite_for :: "ident \<Rightarrow> timestamp \<Rightarrow> lobby_fields doc \<Rightarrow> bool" where
  "pending_invite_for uid now d =
     (case body d of
        InviteFields i \<Rightarrow> invitee_id i = uid \<and> is_accepted i = None \<and> expires_at i > now
      | LobbyFields _ \<Rightarrow> False)"

definition get_lobby_invites :: "lobbies_container \<Rightarrow> ident \<Rightarrow> timestamp \<Rightarrow> lobby_fields doc list" where
  "get_lobby_invites c uid now = rev (query_items c (pending_invite_for uid now))"

fun invite_of :: "ident \<Rightarrow> ident \<Rightarrow> lobby_fields doc \<Rightarrow> bool" where
  "invite_of iid uid d =
     (item_id d = iid \<and>
      (case body d of InviteFields i \<Rightarrow> invitee_id i = uid | LobbyFields _ \<Rightarrow> False))"

fun the_invite :: "lobby_fields doc \<Rightarrow> invite option" where
  "the_invite d = (case body d of InviteFields i \<Rightarrow> Some i | LobbyFields _ \<Rightarrow> None)"

definition accept_lobby_invite ::
  "lobbies_container \<Rightarrow> ident \<Rightarrow> ident \<Rightarrow> timestamp \<Rightarrow> (error + bool) \<times> lobbies_container" where
  "accept_lobby_invite c iid uid now =
     (case List.map_filter the_invite (query_items c (invite_of iid uid)) of
        [] \<Rightarrow> (Inr False, c)
      | iv # _ \<Rightarrow>
          if expires_at iv < now then (Inr False, c)
          else
            (case update_item c iid (lobby_id iv)
                    (on_invite (\<lambda>x. x\<lparr>is_accepted := Some True\<rparr>)) of
               (Inl e, c') \<Rightarrow> (Inl e, c')
             | (Inr _, c') \<Rightarrow> join_lobby c' (lobby_id iv) uid None))"

text \<open>
  \<^verbatim>\<open>create_lobby\<close> files a lobby under its creator's partition and
  \<^verbatim>\<open>create_lobby_invite\<close> files an invite under its lobby's partition; no update
  touches these keys.
\<close>

fun filed_lobby_item :: "lobby_fields doc \<Rightarrow> bool" where
  "filed_lobby_item d =
     (case body d of
        LobbyFields l \<Rightarrow> partitionKey d = lobby.creator_id l
      | InviteFields i \<Rightarrow> partitionKey d = lobby_id i)"

definition wf_lobbies :: "lobbies_container \<Rightarrow> bool" where
  "wf_lobbies c = (unique_ids c \<and> list_all filed_lobby_item c)"

text \<open>
  A sample container: alice creates a lobby for two players with password \<^verbatim>\<open>x\<close>; in
  \<open>emptied_lobbies\<close> somebody has then left it, which takes the player count to 0.
\<close>

definition crypt_run :: "int \<Rightarrow> lobby" where
  "crypt_run n =
     \<lparr>name = ''Crypt run'', creator_id = ''alice'', dungeon_id = ''D1'', max_players = 2,
      current_players = n, is_public = True, password = Some ''x'', status = Waiting,
      started_at = None, completed_at = None\<rparr>"

definition demo_lobbies :: lobbies_container where
  "demo_lobbies = snd (create_lobby [] ''L1'' ''Crypt run'' ''D1'' 2 True (Some ''x'') ''alice'')"

definition emptied_lobbies :: lobbies_container where
  "emptied_lobbies = snd (leave_lobby demo_lobbies ''L1'' ''mallory'')"

text \<open>
  Alice invites bob (at time 0) and carol then takes the last seat: \<open>full_lobbies\<close>.
\<close>

definition bob_invite :: "bool option \<Rightarrow> invite" where
  "bob_invite a = \<lparr>lobby_id = ''L1'', inviter_id = ''alice'', invitee_id = ''bob'',
      expires_at = 86400000000, is_accepted = a\<rparr>"

definition full_lobbies :: lobbies_container where
  "full_lobbies =
     snd (join_lobby (snd (create_lobby_invite demo_lobbies ''I1'' ''L1'' ''alice'' ''bob'' 0))
            ''L1'' ''carol'' (Some ''x''))"




section \<open>Friendships (models/friendship.py, services/friendship_service.py)\<close>

datatype friendship_status = Pending | Accepted | Rejected | Blocked

record friendship =
  requester_id :: ident
  addressee_id :: ident
  status :: friendship_status

type_synonym friendships_container = "friendship doc list"

text \<open>The source's \<^verbatim>\<open>_get_friendship\<close>: one query per direction, the first row of the first hit.\<close>

definition get_friendship ::
  "friendships_container \<Rightarrow> ident \<Rightarrow> ident \<Rightarrow> friendship doc option" where
  "get_friendship c user1 user2 =
     (case query_items c (\<lambda>d. requester_id (body d) = user1 \<and> addressee_id (body d) = user2) of
        d # _ \<Rightarrow> Some d
      | [] \<Rightarrow>
          (case query_items c
                  (\<lambda>d. requester_id (body d) = user2 \<and> addressee_id (body d) = user1) of
             d # _ \<Rightarrow> Some d
           | [] \<Rightarrow> None))"

definition send_friend_request ::
  "friendships_container \<Rightarrow> ident \<Rightarrow> ident \<Rightarrow> ident
     \<Rightarrow> (error + friendship doc) \<times> friendships_container" where
  "send_friend_request c new_id requester addressee =
     (if requester = addressee
        then (Inl (ValueError ''Cannot send friend request to yourself''), c)
      else
        (case get_friendship c requester addressee of
           Some _ \<Rightarrow> (Inl (ValueError ''Friendship request already exists''), c)
         | None \<Rightarrow>
             (case create_item c new_id requester
                     \<lparr>requester_id = requester, addressee_id = addressee, status = Pending\<rparr> of
                (item, c') \<Rightarrow> (Inr item, c'))))"

definition accept_friend_request ::
  "friendships_container \<Rightarrow> ident \<Rightarrow> ident \<Rightarrow> (error + bool) \<times> friendships_container" where
  "accept_friend_request c addressee requester =
     (case get_friendship c requester addressee of
        None \<Rightarrow> (Inr False, c)
      | Some f \<Rightarrow>
          if friendship.status (body f) \<noteq> Pending then (Inr False, c)
          else
            (case update_item c (item_id f) requester (\<lambda>x. x\<lparr>friendship.status := Accepted\<rparr>) of
               (Inl e, c') \<Rightarrow> (Inl e, c')
             | (Inr _, c') \<Rightarrow> (Inr True, c')))"

definition are_friends :: "friendships_container \<Rightarrow> ident \<Rightarrow> ident \<Rightarrow> bool" where
  "are_friends c user friend =
     (case get_friendship c user friend of
        None \<Rightarrow> False
      | Some f \<Rightarrow> friendship.status (body f) = Accepted)"

text \<open>A relationship row between two users, in either direction and of any status.\<close>

definition related :: "friendships_container \<Rightarrow> ident \<Rightarrow> ident \<Rightarrow> bool" where
  "related c a b =
     list_ex (\<lambda>d. requester_id (body d) = a \<and> addressee_id (body d) = b
                \<or> requester_id (body d) = b \<and> addressee_id (body d) = a) c"

text \<open>A sample container: alice asks bob, bob accepts.\<close>

definition befriended :: friendships_container where
  "befriended =
     snd (accept_friend_request (snd (send_friend_request [] ''F1'' ''alice'' ''bob''))
            ''bob'' ''alice'')"

section \<open>Dungeons and ratings (models/dungeon.py, services/dungeon_service.py)\<close>

text \<open>
  \<^verbatim>\<open>average_rating\<close> is a Python float. Its arithmetic is not interpreted: the true
  division of two integers and \<^verbatim>\<open>round(x, ndigits)\<close> are parameters \<open>truediv\<close> and
  \<open>round_nd\<close> of the operations, over any type \<open>'f\<close> of floats.
\<close>

datatype dungeon_status = Draft | Published | Archived

record 'f dungeon =
  name :: string
  creator_id :: ident
  is_public :: bool
  status :: dungeon_status
  average_rating :: 'f
  total_ratings :: int
  play_count :: int

record dungeon_rating =
  dungeon_id :: ident
  user_id :: ident
  rating :: int
  comment :: "string option"

record 'f dungeon_db =
  dungeons_container :: "'f dungeon doc list"
  ratings_container :: "dungeon_rating doc list"

definition get_dungeon_by_id :: "'f dungeon doc list \<Rightarrow> ident \<Rightarrow> 'f dungeon option" where
  "get_dungeon_by_id c did =
     (case query_items c (\<lambda>d. item_id d = did) of
        [] \<Rightarrow> None
      | d # _ \<Rightarrow> Some (body d))"

text \<open>The source's \<^verbatim>\<open>_update_dungeon_rating\<close>.\<close>

definition update_dungeon_rating ::
  "(int \<Rightarrow> int \<Rightarrow> 'f) \<Rightarrow> ('f \<Rightarrow> nat \<Rightarrow> 'f) \<Rightarrow> 'f dungeon_db \<Rightarrow> ident
     \<Rightarrow> (error + unit) \<times> 'f dungeon_db" where
  "update_dungeon_rating truediv round_nd db did =
     (let ratings = query_items (ratings_container db) (\<lambda>d. dungeon_rating.dungeon_id (body d) = did)
      in if ratings \<noteq> [] then
           (let total_rating = sum_list (map (\<lambda>r. rating (body r)) ratings);
                avg = truediv total_rating (int (length ratings))
            in case get_dungeon_by_id (dungeons_container db) did of
                 None \<Rightarrow> (Inr (), db)
               | Some dungeon \<Rightarrow>
                   (case update_item (dungeons_container db) did (dungeon.creator_id dungeon)
                           (\<lambda>x. x\<lparr>dungeon.average_rating := round_nd avg 2,
                                  dungeon.total_ratings := int (length ratings)\<rparr>) of
                      (Inl e, ds) \<Rightarrow> (Inl e, db\<lparr>dungeons_container := ds\<rparr>)
                    | (Inr _, ds) \<Rightarrow> (Inr (), db\<lparr>dungeons_container := ds\<rparr>)))
         else (Inr (), db))"

definition rate_dungeon ::
  "(int \<Rightarrow> int \<Rightarrow> 'f) \<Rightarrow> ('f \<Rightarrow> nat \<Rightarrow> 'f) \<Rightarrow> 'f dungeon_db \<Rightarrow> ident \<Rightarrow> ident \<Rightarrow> ident \<Rightarrow> int
     \<Rightarrow> string option \<Rightarrow> (error + dungeon_rating doc) \<times> 'f dungeon_db" where
  "rate_dungeon truediv round_nd db new_id did uid r cm =
     (if r < 1 \<or> r > 5 then (Inl (ValueError ''Rating must be between 1 and 5''), db)
      else
        (let existing_ratings =
               query_items (ratings_container db)
                 (\<lambda>d. dungeon_rating.dungeon_id (body d) = did \<and> dungeon_rating.user_id (body d) = uid);
             written =
               (case existing_ratings of
                  existing_rating # _ \<Rightarrow>
                    update_item (ratings_container db) (item_id existing_rating) did
                      (\<lambda>x. x\<lparr>rating := r, comment := cm\<rparr>)
                | [] \<Rightarrow>
                    (case create_item (ratings_container db) new_id did
                            \<lparr>dungeon_id = did, user_id = uid, rating = r, comment = cm\<rparr> of
                       (item, rs) \<Rightarrow> (Inr item, rs)))
         in case written of
              (Inl e, rs) \<Rightarrow> (Inl e, db\<lparr>ratings_container := rs\<rparr>)
            | (Inr rating_obj, rs) \<Rightarrow>
                (case update_dungeon_rating truediv round_nd (db\<lparr>ratings_container := rs\<rparr>) did of
                   (Inl e, db') \<Rightarrow> (Inl e, db')
                 | (Inr _, db') \<Rightarrow> (Inr rating_obj, db'))))"

text \<open>
  What the writers establish: \<^verbatim>\<open>create_dungeon\<close> files a dungeon under its creator's
  partition, \<^verbatim>\<open>rate_dungeon\<close> files a rating under its dungeon's partition, and the
  read-before-write of \<^verbatim>\<open>rate_dungeon\<close> keeps one rating per dungeon and user.
\<close>

definition wf_dungeon_db :: "'f dungeon_db \<Rightarrow> bool" where
  "wf_dungeon_db db =
     (unique_ids (dungeons_container db) \<and> unique_ids (ratings_container db)
      \<and> list_all (\<lambda>d. partitionKey d = dungeon.creator_id (body d)) (dungeons_container db)
      \<and> list_all (\<lambda>d. partitionKey d = dungeon_rating.dungeon_id (body d)) (ratings_container db))"

definition one_rating_each :: "dungeon_rating doc list \<Rightarrow> bool" where
  "one_rating_each rs =
     distinct (map (\<lambda>d. (dungeon_rating.dungeon_id (body d), dungeon_rating.user_id (body d))) rs)"

text \<open>
  Names for what the two writes of \<^verbatim>\<open>rate_dungeon\<close> leave behind. \<open>rated did\<close>
  and \<open>rated_by did uid\<close> are the WHERE clauses of its two rating queries, \<open>others\<close>
  selects the ratings of a dungeon by everybody else. \<open>written\<close> is the upsert as the
  code runs it and \<open>upsert_rating\<close> the container it leaves when it succeeds;
  \<open>aggregates\<close> is the dictionary \<^verbatim>\<open>_update_dungeon_rating\<close> writes onto the dungeon and
  \<open>recomputed\<close> the database it leaves when it succeeds.
\<close>

definition rated :: "ident \<Rightarrow> dungeon_rating doc \<Rightarrow> bool" where
  "rated did = (\<lambda>d. dungeon_rating.dungeon_id (body d) = did)"

definition rated_by :: "ident \<Rightarrow> ident \<Rightarrow> dungeon_rating doc \<Rightarrow> bool" where
  "rated_by did uid =
     (\<lambda>d. dungeon_rating.dungeon_id (body d) = did \<and> dungeon_rating.user_id (body d) = uid)"

definition others :: "ident \<Rightarrow> ident \<Rightarrow> dungeon_rating doc \<Rightarrow> bool" where
  "others did uid =
     (\<lambda>d. dungeon_rating.dungeon_id (body d) = did \<and> dungeon_rating.user_id (body d) \<noteq> uid)"

definition written ::
  "dungeon_rating doc list \<Rightarrow> ident \<Rightarrow> ident \<Rightarrow> ident \<Rightarrow> int \<Rightarrow> string option
     \<Rightarrow> (error + dungeon_rating doc) \<times> dungeon_rating doc list" where
  "written rs nid did uid r cm =
     (case query_items rs (rated_by did uid) of
        e # _ \<Rightarrow> update_item rs (item_id e) did (\<lambda>x. x\<lparr>rating := r, comment := cm\<rparr>)
      | [] \<Rightarrow> (case create_item rs nid did
                      \<lparr>dungeon_rating.dungeon_id = did, dungeon_rating.user_id = uid,
                       rating = r, comment = cm\<rparr> of
                 (item, rs') \<Rightarrow> (Inr item, rs')))"

definition upsert_rating ::
  "dungeon_rating doc list \<Rightarrow> ident \<Rightarrow> ident \<Rightarrow> ident \<Rightarrow> int \<Rightarrow> string option
     \<Rightarrow> dungeon_rating doc list" where
  "upsert_rating rs new_id did uid r cm =
     (case query_items rs (rated_by did uid) of
        e # _ \<Rightarrow> amend rs (item_id e) (\<lambda>x. x\<lparr>rating := r, comment := cm\<rparr>)
      | [] \<Rightarrow> rs @ [\<lparr>item_id = new_id, partitionKey = did,
                      body = \<lparr>dungeon_rating.dungeon_id = did, dungeon_rating.user_id = uid, rating = r, comment = cm\<rparr>\<rparr>])"

definition aggregates ::
  "(int \<Rightarrow> int \<Rightarrow> 'f) \<Rightarrow> ('f \<Rightarrow> nat \<Rightarrow> 'f) \<Rightarrow> dungeon_rating doc list \<Rightarrow> ident
     \<Rightarrow> 'f dungeon \<Rightarrow> 'f dungeon" where
  "aggregates truediv round_nd rs did =
     (\<lambda>x. x\<lparr>dungeon.average_rating :=
          round_nd (truediv (sum_list (map (\<lambda>r. rating (body r)) (query_items rs (rated did))))
                      (int (length (query_items rs (rated did))))) 2,
       dungeon.total_ratings := int (length (query_items rs (rated did)))\<rparr>)"

definition recomputed ::
  "(int \<Rightarrow> int \<Rightarrow> 'f) \<Rightarrow> ('f \<Rightarrow> nat \<Rightarrow> 'f) \<Rightarrow> 'f dungeon_db \<Rightarrow> ident \<Rightarrow> 'f dungeon_db" where
  "recomputed td rn db did =
     (case get_dungeon_by_id (dungeons_container db) did of
        None \<Rightarrow> db
      | Some _ \<Rightarrow> db\<lparr>dungeons_container :=
                     amend (dungeons_container db) did (aggregates td rn (ratings_container db) did)\<rparr>)"

text \<open>
  One instance of the float arithmetic, over the rationals: exact division, and rounding
  to \<open>n\<close> decimal digits, halves upwards. A sample database: alice's published dungeon
  with one rating, four stars from carol.
\<close>

definition exact_div :: "int \<Rightarrow> int \<Rightarrow> rat" where
  "exact_div a b = of_int a / of_int b"

definition half_up :: "rat \<Rightarrow> nat \<Rightarrow> rat" where
  "half_up x n = of_int \<lfloor>(2 * x * 10 ^ n + 1) / 2\<rfloor> / 10 ^ n"

definition crypt :: "rat \<Rightarrow> int \<Rightarrow> rat dungeon doc" where
  "crypt avg n =
     \<lparr>item_id = ''D1'', partitionKey = ''alice'',
      body = \<lparr>dungeon.name = ''Crypt'', dungeon.creator_id = ''alice'', dungeon.is_public = True,
              dungeon.status = Published, dungeon.average_rating = avg,
              dungeon.total_ratings = n, dungeon.play_count = 0\<rparr>\<rparr>"

definition stars :: "ident \<Rightarrow> ident \<Rightarrow> int \<Rightarrow> dungeon_rating doc" where
  "stars rid uid r =
     \<lparr>item_id = rid, partitionKey = ''D1'',
      body = \<lparr>dungeon_rating.dungeon_id = ''D1'', dungeon_rating.user_id = uid,
              dungeon_rating.rating = r, dungeon_rating.comment = None\<rparr>\<rparr>"

definition demo_db :: "rat dungeon_db" where
  "demo_db = \<lparr>dungeons_container = [crypt 4 1], ratings_container = [stars ''R0'' ''carol'' 4]\<rparr>"

section \<open>Facts about the store\<close>

lemma filter_unique_key:
  "distinct (map f xs) \<Longrightarrow> x \<in> set xs \<Longrightarrow> filter (\<lambda>y. f y = f x) xs = [x]"
proof (induction xs)
  case Nil then show ?case by simp
next
  case (Cons a xs)
  show ?case
  proof (cases "a = x")
    case True
    with Cons.prems have "\<forall>y\<in>set xs. f y \<noteq> f x" by (auto simp: image_iff)
    then have "filter (\<lambda>y. f y = f x) xs = []" by (simp add: filter_empty_conv)
    with True show ?thesis by simp
  next
    case False
    with Cons.prems have "x \<in> set xs" "f a \<noteq> f x" by auto
    with Cons show ?thesis by simp
  qed
qed

lemma filter_unique_id:
  "unique_ids c \<Longrightarrow> d \<in> set c \<Longrightarrow> filter (\<lambda>x. item_id x = item_id d) c = [d]"
  unfolding unique_ids_def
proof (induction c)
  case Nil then show ?case by simp
next
  case (Cons a c)
  show ?case
  proof (cases "a = d")
    case True
    with Cons.prems have "\<forall>x\<in>set c. item_id x \<noteq> item_id d" by (auto simp: image_iff)
    then have "filter (\<lambda>x. item_id x = item_id d) c = []" by (simp add: filter_empty_conv)
    with True show ?thesis by simp
  next
    case False
    with Cons.prems have "d \<in> set c" "item_id a \<noteq> item_id d" by auto
    with Cons show ?thesis by simp
  qed
qed

lemma query_by_id_cases:
  assumes "unique_ids c"
  shows "query_items c (\<lambda>x. item_id x = iid) = [] \<and> iid \<notin> item_id ` set c
       \<or> (\<exists>d. d \<in> set c \<and> item_id d = iid \<and> query_items c (\<lambda>x. item_id x = iid) = [d])"
proof (cases "iid \<in> item_id ` set c")
  case True
  then obtain d where "d \<in> set c" "item_id d = iid" by auto
  with filter_unique_id[OF assms, of d] show ?thesis by (auto simp: query_items_def)
next
  case False
  then show ?thesis by (auto simp: query_items_def filter_empty_conv)
qed

lemma get_item_unique:
  assumes "unique_ids c" "d \<in> set c"
  shows "get_item c (item_id d) pk = (if partitionKey d = pk then Some d else None)"
proof -
  have "find (\<lambda>x. item_id x = item_id d \<and> partitionKey x = pk) c
        = (case filter (\<lambda>x. item_id x = item_id d \<and> partitionKey x = pk) c of [] \<Rightarrow> None | x # _ \<Rightarrow> Some x)"
    by (induction c) auto
  moreover have "filter (\<lambda>x. item_id x = item_id d \<and> partitionKey x = pk) c
        = filter (\<lambda>x. partitionKey x = pk) (filter (\<lambda>x. item_id x = item_id d) c)"
    by (simp add: conj_commute)
  ultimately show ?thesis
    using filter_unique_id[OF assms] by (simp add: get_item_def)
qed

lemma get_item_absent:
  "iid \<notin> item_id ` set c \<Longrightarrow> get_item c iid pk = None"
  by (auto simp: get_item_def find_None_iff)

lemma replace_item_unique:
  assumes "unique_ids c" "d \<in> set c"
  shows "replace_item c (item_id d) (d\<lparr>body := b\<rparr>)
         = map (\<lambda>x. if item_id x = item_id d then x\<lparr>body := b\<rparr> else x) c"
proof -
  have "\<And>x. x \<in> set c \<Longrightarrow> item_id x = item_id d \<Longrightarrow> x = d"
    using assms unfolding unique_ids_def by (meson distinct_map inj_onD)
  then show ?thesis
    unfolding replace_item_def by (intro map_cong) auto
qed

lemma update_item_unique:
  assumes "unique_ids c" "d \<in> set c" "partitionKey d = pk"
  shows "update_item c (item_id d) pk f
         = (Inr (d\<lparr>body := f (body d)\<rparr>),
            map (\<lambda>x. if item_id x = item_id d then x\<lparr>body := f (body x)\<rparr> else x) c)"
proof -
  have "\<And>x. x \<in> set c \<Longrightarrow> item_id x = item_id d \<Longrightarrow> x = d"
    using assms unfolding unique_ids_def by (meson distinct_map inj_onD)
  then have "map (\<lambda>x. if item_id x = item_id d then x\<lparr>body := f (body d)\<rparr> else x) c
           = map (\<lambda>x. if item_id x = item_id d then x\<lparr>body := f (body x)\<rparr> else x) c"
    by (intro map_cong) auto
  then show ?thesis
    using assms get_item_unique[OF assms(1,2), of pk] replace_item_unique[OF assms(1,2), of "f (body d)"]
    by (simp add: update_item_def)
qed

lemma update_item_wrong_partition:
  assumes "unique_ids c" "d \<in> set c" "partitionKey d \<noteq> pk"
  shows "update_item c (item_id d) pk f
         = (Inl (ValueError (''Item '' @ item_id d @ '' not found'')), c)"
  using get_item_unique[OF assms(1,2), of pk] assms(3) by (simp add: update_item_def)

lemma update_item_amend:
  assumes "unique_ids c" "d \<in> set c" "partitionKey d = pk"
  shows "update_item c (item_id d) pk f = (Inr (d\<lparr>body := f (body d)\<rparr>), amend c (item_id d) f)"
  using update_item_unique[OF assms] by (simp add: amend_def)

lemma map_item_id_amend: "map item_id (amend c iid f) = map item_id c"
  by (simp add: amend_def comp_def if_distrib cong: if_cong)

lemma unique_ids_amend: "unique_ids (amend c iid f) = unique_ids c"
  by (simp add: unique_ids_def map_item_id_amend)

lemma query_id_amend:
  "query_items (amend c iid f) (\<lambda>x. item_id x = k)
   = map (\<lambda>x. if k = iid then x\<lparr>body := f (body x)\<rparr> else x) (query_items c (\<lambda>x. item_id x = k))"
  unfolding query_items_def amend_def by (induction c) auto

lemma get_lobby_by_id_SomeD:
  assumes "get_lobby_by_id c lid = Inr (Some l)"
  shows "\<exists>d\<in>set c. item_id d = lid \<and> body d = LobbyFields l"
proof -
  from assms obtain d ds where q: "query_items c (\<lambda>x. item_id x = lid) = d # ds"
    and b: "body d = LobbyFields l"
    by (auto simp: get_lobby_by_id_def split: list.splits lobby_fields.splits)
  from q have "d \<in> set (filter (\<lambda>x. item_id x = lid) c)" by (simp add: query_items_def)
  with b show ?thesis by auto
qed

lemma get_lobby_by_id_amend_same:
  "get_lobby_by_id c lid = Inr (Some l)
   \<Longrightarrow> get_lobby_by_id (amend c lid (on_lobby g)) lid = Inr (Some (g l))"
  by (auto simp: get_lobby_by_id_def query_id_amend split: list.splits lobby_fields.splits)

lemma get_lobby_by_id_amend_other:
  "k \<noteq> lid \<Longrightarrow> get_lobby_by_id (amend c lid f) k = get_lobby_by_id c k"
  by (simp add: get_lobby_by_id_def query_id_amend)

lemma wf_lobbiesD:
  assumes "wf_lobbies c" "d \<in> set c"
  shows "unique_ids c" "filed_lobby_item d"
  using assms by (auto simp: wf_lobbies_def list_all_iff)

lemma update_lobby:
  assumes wf: "wf_lobbies c" and l: "get_lobby_by_id c lid = Inr (Some l)"
  shows "update_item c lid (lobby.creator_id l) (on_lobby g)
         = (Inr \<lparr>item_id = lid, partitionKey = lobby.creator_id l, body = LobbyFields (g l)\<rparr>,
            amend c lid (on_lobby g))"
proof -
  from get_lobby_by_id_SomeD[OF l] obtain d where
    d: "d \<in> set c" "item_id d = lid" "body d = LobbyFields l" by auto
  from wf_lobbiesD[OF wf d(1)] d(3) have u: "unique_ids c" and pk: "partitionKey d = lobby.creator_id l"
    by auto
  have "d\<lparr>body := on_lobby g (body d)\<rparr>
        = \<lparr>item_id = lid, partitionKey = lobby.creator_id l, body = LobbyFields (g l)\<rparr>"
    using d(2,3) pk by (cases d) simp
  with update_item_amend[OF u d(1) pk, of "on_lobby g"] d(2) show ?thesis by simp
qed


section \<open>The lobby life cycle\<close>

lemmas store_defs = query_items_def create_item_def get_item_def replace_item_def update_item_def
  unique_ids_def Let_def

lemmas lobby_defs = create_lobby_def get_lobby_by_id_def join_lobby_def leave_lobby_def
  start_lobby_def wf_lobbies_def

lemma demo_lobbies_wf: "wf_lobbies demo_lobbies"
  by (simp add: demo_lobbies_def store_defs lobby_defs)

lemma demo_lobbies_L1: "get_lobby_by_id demo_lobbies ''L1'' = Inr (Some (crypt_run 1))"
  by (simp add: demo_lobbies_def crypt_run_def store_defs lobby_defs)

lemma emptied_lobbies_eq:
  "emptied_lobbies = [\<lparr>item_id = ''L1'', partitionKey = ''alice'', body = LobbyFields (crypt_run 0)\<rparr>]"
  by (simp add: emptied_lobbies_def demo_lobbies_def crypt_run_def store_defs lobby_defs)



text \<open>
  C2, as the code has it. For every existing lobby of a well-formed container,
  \<open>start_lobby\<close> returns true if and only if the caller is the lobby's creator, the
  status is waiting and at least one player is present; when it returns true the lobby
  is in_game with \<open>started_at = now\<close>; and it returns false, changing nothing, whenever
  the status is not waiting or the caller is not the creator.
\<close>

theorem start_lobby_guard:
  assumes "wf_lobbies c" and "get_lobby_by_id c lid = Inr (Some l)"
  shows "(fst (start_lobby c lid caller now) = Inr True
          \<longleftrightarrow> (caller = lobby.creator_id l \<and> lobby.status l = Waiting \<and> lobby.current_players l \<ge> 1))
       \<and> (fst (start_lobby c lid caller now) = Inr True
          \<longrightarrow> get_lobby_by_id (snd (start_lobby c lid caller now)) lid
               = Inr (Some (l\<lparr>lobby.status := InGame, started_at := Some now\<rparr>)))
       \<and> (lobby.status l \<noteq> Waiting \<or> caller \<noteq> lobby.creator_id l
          \<longrightarrow> start_lobby c lid caller now = (Inr False, c))"
  using assms update_lobby[OF assms, of "\<lambda>x. x\<lparr>lobby.status := InGame, started_at := Some now\<rparr>"]
    get_lobby_by_id_amend_same[OF assms(2), of "\<lambda>x. x\<lparr>lobby.status := InGame, started_at := Some now\<rparr>"]
  by (auto simp: start_lobby_def)

theorem start_lobby_guard_witness:
  "wf_lobbies demo_lobbies
   \<and> get_lobby_by_id demo_lobbies ''L1'' = Inr (Some (crypt_run 1))
   \<and> fst (start_lobby demo_lobbies ''L1'' ''alice'' 7) = Inr True
   \<and> get_lobby_by_id (snd (start_lobby demo_lobbies ''L1'' ''alice'' 7)) ''L1''
       = Inr (Some ((crypt_run 1)\<lparr>lobby.status := InGame, started_at := Some 7\<rparr>))
   \<and> start_lobby demo_lobbies ''L1'' ''bob'' 7 = (Inr False, demo_lobbies)"
  using start_lobby_guard [OF demo_lobbies_wf demo_lobbies_L1, of "''alice''" 7]
    start_lobby_guard [OF demo_lobbies_wf demo_lobbies_L1, of "''bob''" 7]
    demo_lobbies_wf demo_lobbies_L1
  by (simp add: crypt_run_def)

text \<open>
  C2 as claimed lets the creator start any waiting lobby. After somebody has left
  alice's one-player lobby, it is waiting with no player, and alice's start is refused.
\<close>

theorem start_lobby_counterexample:
  "get_lobby_by_id emptied_lobbies ''L1'' = Inr (Some (crypt_run 0))
   \<and> lobby.creator_id (crypt_run 0) = ''alice''
   \<and> lobby.status (crypt_run 0) = Waiting
   \<and> start_lobby emptied_lobbies ''L1'' ''alice'' 7 = (Inr False, emptied_lobbies)"
  by (simp add: emptied_lobbies_eq crypt_run_def store_defs lobby_defs)












lemma wf_lobbies_create_lobby:
  assumes "wf_lobbies c" "new_id \<notin> item_id ` set c"
  shows "wf_lobbies (snd (create_lobby c new_id nm did maxp pub pw cid))"
  using assms by (simp add: wf_lobbies_def unique_ids_def create_lobby_def create_item_def Let_def)

lemma wf_lobbies_create_lobby_invite:
  assumes "wf_lobbies c" "new_id \<notin> item_id ` set c"
  shows "wf_lobbies (snd (create_lobby_invite c new_id lid inviter invitee now))"
  using assms
  by (auto simp: wf_lobbies_def unique_ids_def create_lobby_invite_def create_item_def Let_def
      split: sum.splits option.splits)

lemma wf_lobbies_amend_lobby:
  assumes "wf_lobbies c" "\<And>l. lobby.creator_id (g l) = lobby.creator_id l"
  shows "wf_lobbies (amend c lid (on_lobby g))"
proof -
  have "\<And>d. filed_lobby_item d \<Longrightarrow> filed_lobby_item (d\<lparr>body := on_lobby g (body d)\<rparr>)"
    using assms(2) by (simp split: lobby_fields.splits)
  then have "list_all filed_lobby_item (amend c lid (on_lobby g))"
    using assms(1) by (auto simp: wf_lobbies_def list_all_iff amend_def)
  then show ?thesis using assms(1) by (simp add: wf_lobbies_def unique_ids_amend)
qed

lemma get_lobby_by_id_amend_invite:
  "get_lobby_by_id (amend c iid (on_invite g)) k = get_lobby_by_id c k"
proof (cases "query_items c (\<lambda>x. item_id x = k)")
  case Nil
  then show ?thesis by (simp add: get_lobby_by_id_def query_id_amend)
next
  case (Cons x xs)
  then show ?thesis
    by (cases "body x") (simp_all add: get_lobby_by_id_def query_id_amend)
qed

lemma join_lobby_False_unchanged:
  "fst (join_lobby c lid uid pw) = Inr False \<Longrightarrow> snd (join_lobby c lid uid pw) = c"
  by (auto simp: join_lobby_def split: sum.splits option.splits prod.splits if_splits)

lemma query_invite_of:
  assumes "unique_ids c" "d \<in> set c" "body d = InviteFields iv" "invitee_id iv = uid"
  shows "query_items c (invite_of (item_id d) uid) = [d]"
proof -
  have "filter (invite_of (item_id d) uid) c
        = filter (invite_of (item_id d) uid) (filter (\<lambda>x. item_id x = item_id d) c)"
    by (auto intro: filter_cong)
  with filter_unique_id[OF assms(1,2)] assms(3,4) show ?thesis
    by (simp add: query_items_def)
qed

lemma update_invite:
  assumes wf: "wf_lobbies c" and d: "d \<in> set c" "body d = InviteFields iv"
  shows "update_item c (item_id d) (lobby_id iv) (on_invite g)
         = (Inr (d\<lparr>body := InviteFields (g iv)\<rparr>), amend c (item_id d) (on_invite g))"
proof -
  from wf_lobbiesD[OF wf d(1)] d(2) have u: "unique_ids c" and pk: "partitionKey d = lobby_id iv"
    by auto
  from update_item_amend[OF u d(1) pk, of "on_invite g"] d(2) show ?thesis by simp
qed

lemma amend_at_id:
  assumes "unique_ids c" "d \<in> set c"
  shows "query_items (amend c (item_id d) f) (\<lambda>x. item_id x = item_id d) = [d\<lparr>body := f (body d)\<rparr>]"
  unfolding query_id_amend by (simp add: query_items_def filter_unique_id[OF assms])

text \<open>
  C10. For every invite of a well-formed container whose invitee is the caller and
  whose \<open>expires_at\<close> lies in the future, \<open>accept_lobby_invite\<close> is the join run on
  the container in which the invite is already flagged \<open>is_accepted = true\<close>. The join
  fails when the lobby is absent, not waiting or at capacity; and whenever the join
  fails, \<open>accept_lobby_invite\<close> returns false, the stored invite stays flagged, it is in
  nobody's pending listing at any time, and every lobby (so every \<open>current_players\<close>)
  is as before.
\<close>

theorem accept_lobby_invite_two_step:
  assumes wf: "wf_lobbies c"
    and d: "d \<in> set c" "body d = InviteFields iv"
    and mine: "invitee_id iv = uid"
    and fresh: "now < expires_at iv"
  shows "let flagged = snd (update_item c (item_id d) (lobby_id iv)
                              (on_invite (\<lambda>x. x\<lparr>is_accepted := Some True\<rparr>)))
         in accept_lobby_invite c (item_id d) uid now = join_lobby flagged (lobby_id iv) uid None
          \<and> (get_lobby_by_id c (lobby_id iv) = Inr None
               \<or> (\<exists>l. get_lobby_by_id c (lobby_id iv) = Inr (Some l)
                    \<and> (lobby.status l \<noteq> Waiting \<or> lobby.current_players l \<ge> lobby.max_players l))
             \<longrightarrow> fst (join_lobby flagged (lobby_id iv) uid None) = Inr False)
          \<and> (fst (join_lobby flagged (lobby_id iv) uid None) = Inr False
             \<longrightarrow> accept_lobby_invite c (item_id d) uid now = (Inr False, flagged)
               \<and> query_items flagged (\<lambda>x. item_id x = item_id d)
                   = [d\<lparr>body := InviteFields (iv\<lparr>is_accepted := Some True\<rparr>)\<rparr>]
               \<and> (\<forall>t. \<forall>x \<in> set (get_lobby_invites flagged uid t). item_id x \<noteq> item_id d)
               \<and> (\<forall>k. get_lobby_by_id flagged k = get_lobby_by_id c k))"
proof -
  let ?g = "\<lambda>x. x\<lparr>is_accepted := Some True\<rparr>"
  let ?c1 = "amend c (item_id d) (on_invite ?g)"
  from wf_lobbiesD[OF wf d(1)] have u: "unique_ids c" by simp
  have upd: "update_item c (item_id d) (lobby_id iv) (on_invite ?g)
             = (Inr (d\<lparr>body := InviteFields (?g iv)\<rparr>), ?c1)"
    by (rule update_invite[OF wf d])
  have acc: "accept_lobby_invite c (item_id d) uid now = join_lobby ?c1 (lobby_id iv) uid None"
    using query_invite_of[OF u d mine] d(2) fresh upd
    by (simp add: accept_lobby_invite_def List.map_filter_simps)
  have same: "\<And>k. get_lobby_by_id ?c1 k = get_lobby_by_id c k"
    by (rule get_lobby_by_id_amend_invite)
  have causes: "get_lobby_by_id c (lobby_id iv) = Inr None
               \<or> (\<exists>l. get_lobby_by_id c (lobby_id iv) = Inr (Some l)
                    \<and> (lobby.status l \<noteq> Waiting \<or> lobby.current_players l \<ge> lobby.max_players l))
             \<Longrightarrow> fst (join_lobby ?c1 (lobby_id iv) uid None) = Inr False"
    by (auto simp: join_lobby_def same)
  have at: "query_items ?c1 (\<lambda>x. item_id x = item_id d) = [d\<lparr>body := InviteFields (?g iv)\<rparr>]"
    using amend_at_id[OF u d(1), of "on_invite ?g"] d(2) by simp
  have listed: "\<And>t x. x \<in> set (get_lobby_invites ?c1 uid t) \<Longrightarrow> item_id x \<noteq> item_id d"
  proof
    fix t x assume x: "x \<in> set (get_lobby_invites ?c1 uid t)" and i: "item_id x = item_id d"
    then have "x \<in> set (query_items ?c1 (\<lambda>x. item_id x = item_id d))"
      by (simp add: get_lobby_invites_def query_items_def)
    with at have "x = d\<lparr>body := InviteFields (?g iv)\<rparr>" by simp
    with x show False by (simp add: get_lobby_invites_def query_items_def)
  qed
  have fail: "fst (join_lobby ?c1 (lobby_id iv) uid None) = Inr False
              \<Longrightarrow> accept_lobby_invite c (item_id d) uid now = (Inr False, ?c1)"
    using join_lobby_False_unchanged[of ?c1 "lobby_id iv" uid None] acc
    by (simp add: prod_eq_iff)
  show ?thesis
    unfolding Let_def upd snd_conv
    using acc causes at listed same fail by blast
qed

lemma full_lobbies_eq:
  "full_lobbies = [\<lparr>item_id = ''L1'', partitionKey = ''alice'', body = LobbyFields (crypt_run 2)\<rparr>,
                   \<lparr>item_id = ''I1'', partitionKey = ''L1'', body = InviteFields (bob_invite None)\<rparr>]"
  by (simp add: full_lobbies_def demo_lobbies_def create_lobby_invite_def crypt_run_def bob_invite_def
      store_defs lobby_defs)

theorem accept_lobby_invite_two_step_witness:
  "wf_lobbies full_lobbies
   \<and> get_lobby_by_id full_lobbies ''L1'' = Inr (Some (crypt_run 2))
   \<and> get_lobby_invites full_lobbies ''bob'' 5
       = [\<lparr>item_id = ''I1'', partitionKey = ''L1'', body = InviteFields (bob_invite None)\<rparr>]
   \<and> accept_lobby_invite full_lobbies ''I1'' ''bob'' 5
       = (Inr False,
          [\<lparr>item_id = ''L1'', partitionKey = ''alice'', body = LobbyFields (crypt_run 2)\<rparr>,
           \<lparr>item_id = ''I1'', partitionKey = ''L1'', body = InviteFields (bob_invite (Some True))\<rparr>])
   \<and> get_lobby_invites (snd (accept_lobby_invite full_lobbies ''I1'' ''bob'' 5)) ''bob'' 5 = []"
proof -
  let ?d = "\<lparr>item_id = ''I1'', partitionKey = ''L1'', body = InviteFields (bob_invite None)\<rparr>"
  let ?after = "[\<lparr>item_id = ''L1'', partitionKey = ''alice'', body = LobbyFields (crypt_run 2)\<rparr>,
     \<lparr>item_id = ''I1'', partitionKey = ''L1'', body = InviteFields (bob_invite (Some True))\<rparr>]"
  have wf: "wf_lobbies full_lobbies"
    by (simp add: full_lobbies_eq crypt_run_def bob_invite_def store_defs lobby_defs)
  have l: "get_lobby_by_id full_lobbies ''L1'' = Inr (Some (crypt_run 2))"
    by (simp add: full_lobbies_eq store_defs lobby_defs)
  have p: "get_lobby_invites full_lobbies ''bob'' 5 = [?d]"
    by (simp add: full_lobbies_eq bob_invite_def get_lobby_invites_def store_defs)
  have f: "snd (update_item full_lobbies ''I1'' ''L1'' (on_invite (\<lambda>x. x\<lparr>is_accepted := Some True\<rparr>)))
           = ?after"
    by (simp add: full_lobbies_eq bob_invite_def store_defs)
  have q: "get_lobby_invites ?after ''bob'' 5 = []"
    by (simp add: bob_invite_def get_lobby_invites_def store_defs)
  have full: "lobby.max_players (crypt_run 2) \<le> lobby.current_players (crypt_run 2)"
    by (simp add: crypt_run_def)
  have "?d \<in> set full_lobbies" "body ?d = InviteFields (bob_invite None)"
    "invitee_id (bob_invite None) = ''bob''" "5 < expires_at (bob_invite None)"
    "item_id ?d = ''I1''" "lobby_id (bob_invite None) = ''L1''"
    by (simp_all add: full_lobbies_eq bob_invite_def)
  from accept_lobby_invite_two_step [OF wf this(1-4), unfolded Let_def this(5,6) f] l full
  have "accept_lobby_invite full_lobbies ''I1'' ''bob'' 5 = (Inr False, ?after)"
    by blast
  with wf l p q show ?thesis by simp
qed

section \<open>Friend requests\<close>

lemmas friendship_defs = get_friendship_def send_friend_request_def accept_friend_request_def
  are_friends_def related_def

lemma get_friendship_None_iff:
  "get_friendship c a b = None
   \<longleftrightarrow> filter (\<lambda>d. requester_id (body d) = a \<and> addressee_id (body d) = b) c = []
     \<and> filter (\<lambda>d. requester_id (body d) = b \<and> addressee_id (body d) = a) c = []"
  by (auto simp: get_friendship_def query_items_def split: list.splits)

lemma related_iff: "related c a b \<longleftrightarrow> get_friendship c a b \<noteq> None"
  unfolding get_friendship_None_iff related_def list_ex_iff filter_empty_conv by blast

lemma send_friend_request_Inr:
  assumes "send_friend_request c nid a b = (Inr f, c1)"
  shows "a \<noteq> b" "get_friendship c a b = None"
    "f = \<lparr>item_id = nid, partitionKey = a,
          body = \<lparr>requester_id = a, addressee_id = b, status = Pending\<rparr>\<rparr>"
    "c1 = c @ [f]"
  using assms
  by (auto simp: send_friend_request_def create_item_def Let_def split: if_splits option.splits)

lemma update_fresh_last:
  assumes "nid \<notin> item_id ` set c" "item_id f = nid" "partitionKey f = pk"
  shows "update_item (c @ [f]) nid pk g = (Inr (f\<lparr>body := g (body f)\<rparr>), c @ [f\<lparr>body := g (body f)\<rparr>])"
proof -
  have none: "\<forall>x\<in>set c. item_id x \<noteq> nid" using assms(1) by (auto simp: image_iff)
  then have g: "get_item (c @ [f]) nid pk = Some f"
    using assms(2,3) unfolding get_item_def by (induction c) auto
  have "map (\<lambda>d. if item_id d = nid \<and> partitionKey d = pk then f\<lparr>body := g (body f)\<rparr> else d) c = c"
    using none by (induction c) auto
  then show ?thesis
    using g assms(2,3) by (simp add: update_item_def replace_item_def Let_def)
qed

text \<open>
  C5. When \<open>send_friend_request\<close> from \<open>a\<close> to \<open>b\<close> succeeds (with a fresh
  identifier for the new row), the two users are distinct, \<open>accept_friend_request\<close>
  by \<open>b\<close> for \<open>a\<close> then returns true, and afterwards \<open>are_friends\<close> holds for
  the pair in both orders.
\<close>

theorem friendship_symmetric:
  assumes fresh: "nid \<notin> item_id ` set c"
    and sent: "send_friend_request c nid a b = (Inr f, c1)"
  shows "a \<noteq> b
       \<and> fst (accept_friend_request c1 b a) = Inr True
       \<and> are_friends (snd (accept_friend_request c1 b a)) a b
       \<and> are_friends (snd (accept_friend_request c1 b a)) b a"
proof -
  note s = send_friend_request_Inr[OF sent]
  let ?P = "\<lambda>d. requester_id (body d) = a \<and> addressee_id (body d) = b"
  let ?Q = "\<lambda>d. requester_id (body d) = b \<and> addressee_id (body d) = a"
  let ?f' = "f\<lparr>body := (body f)\<lparr>friendship.status := Accepted\<rparr>\<rparr>"
  from s(2) have e: "filter ?P c = []" "filter ?Q c = []"
    by (simp_all add: get_friendship_None_iff)
  have g1: "get_friendship c1 a b = Some f"
    using e s(3) by (simp add: get_friendship_def query_items_def s(4))
  have u: "update_item c1 (item_id f) a (\<lambda>x. x\<lparr>friendship.status := Accepted\<rparr>) = (Inr ?f', c @ [?f'])"
    unfolding s(4) using update_fresh_last[OF fresh, of f a] s(3) by simp
  have acc: "accept_friend_request c1 b a = (Inr True, c @ [?f'])"
    using g1 u s(3) by (simp add: accept_friend_request_def)
  have ab: "get_friendship (c @ [?f']) a b = Some ?f'"
    using e s(3) by (simp add: get_friendship_def query_items_def)
  have ba: "get_friendship (c @ [?f']) b a = Some ?f'"
    using e s(1,3) by (simp add: get_friendship_def query_items_def)
  show ?thesis
    using s(1) acc ab ba by (simp add: are_friends_def)
qed

theorem friendship_symmetric_witness:
  "''F1'' \<notin> item_id ` set ([] :: friendships_container)
   \<and> fst (send_friend_request [] ''F1'' ''alice'' ''bob'')
       = Inr \<lparr>item_id = ''F1'', partitionKey = ''alice'',
              body = \<lparr>requester_id = ''alice'', addressee_id = ''bob'', status = Pending\<rparr>\<rparr>
   \<and> fst (accept_friend_request (snd (send_friend_request [] ''F1'' ''alice'' ''bob'')) ''bob'' ''alice'')
       = Inr True
   \<and> are_friends (snd (accept_friend_request (snd (send_friend_request [] ''F1'' ''alice'' ''bob''))
                         ''bob'' ''alice'')) ''alice'' ''bob''
   \<and> are_friends (snd (accept_friend_request (snd (send_friend_request [] ''F1'' ''alice'' ''bob''))
                         ''bob'' ''alice'')) ''bob'' ''alice''"
proof -
  let ?f = "\<lparr>item_id = ''F1'', partitionKey = ''alice'',
             body = \<lparr>requester_id = ''alice'', addressee_id = ''bob'', status = Pending\<rparr>\<rparr>"
  have s1: "fst (send_friend_request [] ''F1'' ''alice'' ''bob'') = Inr ?f"
    by (simp add: friendship_defs store_defs)
  then have s: "send_friend_request [] ''F1'' ''alice'' ''bob''
                = (Inr ?f, snd (send_friend_request [] ''F1'' ''alice'' ''bob''))"
    by (simp add: prod_eq_iff)
  have "''F1'' \<notin> item_id ` set ([] :: friendships_container)" by simp
  from friendship_symmetric [OF this s] s1 show ?thesis by simp
qed

text \<open>
  C6. \<open>send_friend_request\<close> raises, leaving the container as it was, whenever the
  two users are the same or a row between them exists in either direction, whatever its
  status; and a second request for the same pair right after a first one always raises.
\<close>

theorem send_friend_request_rejects:
  "(a = b \<or> related c a b
      \<longrightarrow> (\<exists>msg. send_friend_request c nid a b = (Inl (ValueError msg), c)))
   \<and> (\<exists>msg. send_friend_request (snd (send_friend_request c nid a b)) nid' a b
              = (Inl (ValueError msg), snd (send_friend_request c nid a b)))"
proof (intro conjI impI)
  assume "a = b \<or> related c a b"
  then show "\<exists>msg. send_friend_request c nid a b = (Inl (ValueError msg), c)"
    by (auto simp: related_iff send_friend_request_def)
next
  let ?c1 = "snd (send_friend_request c nid a b)"
  have "a = b \<or> related ?c1 a b"
    by (auto simp: related_iff send_friend_request_def create_item_def Let_def
        get_friendship_def query_items_def split: list.splits)
  then show "\<exists>msg. send_friend_request ?c1 nid' a b = (Inl (ValueError msg), ?c1)"
    by (auto simp: related_iff send_friend_request_def)
qed

theorem send_friend_request_rejects_witness:
  "related befriended ''bob'' ''alice''
   \<and> send_friend_request befriended ''F2'' ''bob'' ''alice''
       = (Inl (ValueError ''Friendship request already exists''), befriended)
   \<and> send_friend_request befriended ''F2'' ''carol'' ''carol''
       = (Inl (ValueError ''Cannot send friend request to yourself''), befriended)"
proof -
  have e: "befriended = [\<lparr>item_id = ''F1'', partitionKey = ''alice'',
             body = \<lparr>requester_id = ''alice'', addressee_id = ''bob'', status = Accepted\<rparr>\<rparr>]"
    by (simp add: befriended_def friendship_defs store_defs)
  have r: "related befriended ''bob'' ''alice''"
    by (simp add: e related_def)
  show ?thesis
    using send_friend_request_rejects [of "''bob''" "''alice''" befriended "''F2''" "''F3''"]
      send_friend_request_rejects [of "''carol''" "''carol''" befriended "''F2''" "''F3''"] r
    by (auto simp: send_friend_request_def related_iff)
qed

section \<open>Rating a dungeon\<close>

lemma query_hd_mem:
  assumes "query_items c P = e # es"
  shows "e \<in> set c \<and> P e"
proof -
  from assms have "e \<in> set (filter P c)" by (simp add: query_items_def)
  then show ?thesis by simp
qed

lemma get_dungeon_by_id_SomeD:
  "get_dungeon_by_id ds did = Some dg \<Longrightarrow> \<exists>x\<in>set ds. item_id x = did \<and> body x = dg"
  by (auto simp: get_dungeon_by_id_def split: list.splits dest: query_hd_mem)

lemma get_dungeon_by_id_amend:
  "get_dungeon_by_id (amend ds did f) did = map_option f (get_dungeon_by_id ds did)"
  by (simp add: get_dungeon_by_id_def query_id_amend split: list.splits)

lemma item_not_found_neq [simp]:
  "ValueError (''Item '' @ iid @ '' not found'') \<noteq> ValueError ''Rating must be between 1 and 5''"
  by simp

lemma update_item_error:
  "update_item c iid pk f = (Inl e, c') \<Longrightarrow> e = ValueError (''Item '' @ iid @ '' not found'') \<and> c' = c"
  by (auto simp: update_item_def Let_def split: option.splits)

lemma update_dungeon_rating_error:
  "update_dungeon_rating td rn db did = (Inl e, db')
   \<Longrightarrow> e = ValueError (''Item '' @ did @ '' not found'')"
  by (auto simp: update_dungeon_rating_def Let_def split: if_splits option.splits prod.splits sum.splits
      dest: update_item_error)

lemma rate_dungeon_error:
  assumes "1 \<le> r" "r \<le> 5" "fst (rate_dungeon td rn db nid did uid r cm) = Inl e"
  shows "\<exists>iid. e = ValueError (''Item '' @ iid @ '' not found'')"
proof -
  let ?w = "case query_items (ratings_container db) (\<lambda>d. dungeon_rating.dungeon_id (body d) = did
                 \<and> dungeon_rating.user_id (body d) = uid) of
              existing_rating # _ \<Rightarrow>
                    update_item (ratings_container db) (item_id existing_rating) did
                      (\<lambda>x. x\<lparr>rating := r, comment := cm\<rparr>)
                | [] \<Rightarrow>
                    (case create_item (ratings_container db) nid did
                            \<lparr>dungeon_rating.dungeon_id = did, dungeon_rating.user_id = uid, rating = r, comment = cm\<rparr> of
                       (item, rs) \<Rightarrow> (Inr item, rs))"
  obtain res rs where w: "?w = (res, rs)" by (cases ?w)
  show ?thesis
  proof (cases res)
    case (Inl e')
    with w assms have "e = e'" by (simp add: rate_dungeon_def Let_def)
    moreover from w Inl have "\<exists>iid. e' = ValueError (''Item '' @ iid @ '' not found'')"
      by (auto simp: create_item_def Let_def split: list.splits dest: update_item_error)
    ultimately show ?thesis by simp
  next
    case (Inr ro)
    obtain res2 db2 where u: "update_dungeon_rating td rn (db\<lparr>ratings_container := rs\<rparr>) did = (res2, db2)"
      by (cases "update_dungeon_rating td rn (db\<lparr>ratings_container := rs\<rparr>) did")
    with w Inr assms obtain e2 where "res2 = Inl e2" "e = e2"
      by (cases res2) (auto simp: rate_dungeon_def Let_def)
    with u update_dungeon_rating_error[of td rn _ did e db2] show ?thesis by auto
  qed
qed


lemma rated_by_eq:
  "(\<lambda>d. dungeon_rating.dungeon_id (body d) = did \<and> dungeon_rating.user_id (body d) = uid)
   = rated_by did uid"
  by (simp add: rated_by_def)

lemma rated_eq: "(\<lambda>d. dungeon_rating.dungeon_id (body d) = did) = rated did"
  by (simp add: rated_def)

lemma update_item_cases:
  assumes "unique_ids c" "x \<in> set c"
  shows "update_item c (item_id x) pk f
         = (if partitionKey x = pk
            then (Inr (x\<lparr>body := f (body x)\<rparr>), amend c (item_id x) f)
            else (Inl (ValueError (''Item '' @ item_id x @ '' not found'')), c))"
  using update_item_amend[OF assms, of pk f] update_item_wrong_partition[OF assms, of pk f]
  by simp

lemma written_rating:
  assumes u: "unique_ids rs"
    and w: "(case query_items rs (rated_by did uid) of
              e # _ \<Rightarrow> update_item rs (item_id e) did (\<lambda>x. x\<lparr>rating := r, comment := cm\<rparr>)
            | [] \<Rightarrow> (case create_item rs nid did
                            \<lparr>dungeon_rating.dungeon_id = did, dungeon_rating.user_id = uid,
                             rating = r, comment = cm\<rparr> of
                       (item, rs') \<Rightarrow> (Inr item, rs'))) = (Inr ro, rs')"
  shows "rs' = upsert_rating rs nid did uid r cm"
proof (cases "query_items rs (rated_by did uid)")
  case Nil
  with w show ?thesis by (auto simp: upsert_rating_def create_item_def Let_def)
next
  case (Cons e es)
  from query_hd_mem[OF Cons] have "e \<in> set rs" by simp
  from update_item_cases[OF u this, of did] w Cons show ?thesis
    by (auto simp: upsert_rating_def split: if_splits)
qed

lemma written_rating_filed:
  assumes u: "unique_ids rs"
    and f: "list_all (\<lambda>d. partitionKey d = dungeon_rating.dungeon_id (body d)) rs"
  shows "\<exists>ro. (case query_items rs (rated_by did uid) of
              e # _ \<Rightarrow> update_item rs (item_id e) did (\<lambda>x. x\<lparr>rating := r, comment := cm\<rparr>)
            | [] \<Rightarrow> (case create_item rs nid did
                            \<lparr>dungeon_rating.dungeon_id = did, dungeon_rating.user_id = uid,
                             rating = r, comment = cm\<rparr> of
                       (item, rs') \<Rightarrow> (Inr item, rs'))) = (Inr ro, upsert_rating rs nid did uid r cm)"
proof (cases "query_items rs (rated_by did uid)")
  case Nil
  then show ?thesis by (auto simp: upsert_rating_def create_item_def Let_def)
next
  case (Cons e es)
  from query_hd_mem[OF Cons] have e: "e \<in> set rs" "rated_by did uid e" by simp_all
  with f have "partitionKey e = did" by (auto simp: list_all_iff rated_by_def)
  with update_item_cases[OF u e(1), of did] Cons show ?thesis
    by (auto simp: upsert_rating_def)
qed

lemma upsert_rated_nonempty: "query_items (upsert_rating rs nid did uid r cm) (rated did) \<noteq> []"
proof (cases "query_items rs (rated_by did uid)")
  case Nil
  then show ?thesis by (simp add: upsert_rating_def query_items_def rated_def)
next
  case (Cons e es)
  from query_hd_mem[OF Cons] have e: "e \<in> set rs" "rated_by did uid e" by simp_all
  let ?e = "e\<lparr>body := (body e)\<lparr>rating := r, comment := cm\<rparr>\<rparr>"
  have "?e \<in> set (amend rs (item_id e) (\<lambda>x. x\<lparr>rating := r, comment := cm\<rparr>))"
    using e(1) by (force simp: amend_def)
  moreover have "rated did ?e" using e(2) by (simp add: rated_by_def rated_def)
  ultimately show ?thesis
    using Cons by (auto simp: upsert_rating_def query_items_def filter_empty_conv)
qed

lemma update_dungeon_rating_step:
  assumes n: "query_items (ratings_container db) (rated did) \<noteq> []"
  shows "update_dungeon_rating td rn db did
        = (case get_dungeon_by_id (dungeons_container db) did of
             None \<Rightarrow> (Inr (), db)
           | Some dg \<Rightarrow>
               (case update_item (dungeons_container db) did (dungeon.creator_id dg)
                       (aggregates td rn (ratings_container db) did) of
                  (Inl e, ds) \<Rightarrow> (Inl e, db\<lparr>dungeons_container := ds\<rparr>)
                | (Inr _, ds) \<Rightarrow> (Inr (), db\<lparr>dungeons_container := ds\<rparr>)))"
  using n unfolding update_dungeon_rating_def aggregates_def rated_def Let_def
  by (simp only: not_False_eq_True if_True)

lemma update_dungeon_rating_cases:
  assumes u: "unique_ids (dungeons_container db)"
    and n: "query_items (ratings_container db) (rated did) \<noteq> []"
  shows "update_dungeon_rating td rn db did = (Inr (), recomputed td rn db did)
       \<or> update_dungeon_rating td rn db did = (Inl (ValueError (''Item '' @ did @ '' not found'')), db)"
    and "list_all (\<lambda>d. partitionKey d = dungeon.creator_id (body d)) (dungeons_container db)
         \<Longrightarrow> update_dungeon_rating td rn db did = (Inr (), recomputed td rn db did)"
proof -
  let ?f = "aggregates td rn (ratings_container db) did"
  note step = update_dungeon_rating_step[OF n, of td rn]
  have "(update_dungeon_rating td rn db did = (Inr (), recomputed td rn db did)
       \<or> update_dungeon_rating td rn db did = (Inl (ValueError (''Item '' @ did @ '' not found'')), db))
      \<and> (list_all (\<lambda>d. partitionKey d = dungeon.creator_id (body d)) (dungeons_container db)
         \<longrightarrow> update_dungeon_rating td rn db did = (Inr (), recomputed td rn db did))"
  proof (cases "get_dungeon_by_id (dungeons_container db) did")
    case None
    then show ?thesis by (simp add: step recomputed_def)
  next
    case (Some dg)
    from get_dungeon_by_id_SomeD[OF Some] obtain x where
      x: "x \<in> set (dungeons_container db)" "item_id x = did" "body x = dg" by auto
    have upd: "update_item (dungeons_container db) did (dungeon.creator_id dg) ?f
         = (if partitionKey x = dungeon.creator_id dg
            then (Inr (x\<lparr>body := ?f (body x)\<rparr>), amend (dungeons_container db) did ?f)
            else (Inl (ValueError (''Item '' @ did @ '' not found'')), dungeons_container db))"
      using update_item_cases[OF u x(1), of "dungeon.creator_id dg" ?f] x(2) by simp
    have filed: "list_all (\<lambda>d. partitionKey d = dungeon.creator_id (body d)) (dungeons_container db)
                 \<Longrightarrow> partitionKey x = dungeon.creator_id dg"
      using x(1,3) by (simp add: list_all_iff)
    have r: "recomputed td rn db did = db\<lparr>dungeons_container := amend (dungeons_container db) did ?f\<rparr>"
      using Some by (simp add: recomputed_def)
    show ?thesis
    proof (cases "partitionKey x = dungeon.creator_id dg")
      case True
      then show ?thesis unfolding step Some option.case upd r by simp
    next
      case False
      with filed show ?thesis unfolding step Some option.case upd r by auto
    qed
  qed
  then show "update_dungeon_rating td rn db did = (Inr (), recomputed td rn db did)
       \<or> update_dungeon_rating td rn db did = (Inl (ValueError (''Item '' @ did @ '' not found'')), db)"
    and "list_all (\<lambda>d. partitionKey d = dungeon.creator_id (body d)) (dungeons_container db)
         \<Longrightarrow> update_dungeon_rating td rn db did = (Inr (), recomputed td rn db did)"
    by blast+
qed

lemma rate_dungeon_step:
  assumes "1 \<le> r" "r \<le> 5"
  shows "rate_dungeon td rn db nid did uid r cm
         = (case written (ratings_container db) nid did uid r cm of
              (Inl e, rs) \<Rightarrow> (Inl e, db\<lparr>ratings_container := rs\<rparr>)
            | (Inr ro, rs) \<Rightarrow>
                (case update_dungeon_rating td rn (db\<lparr>ratings_container := rs\<rparr>) did of
                   (Inl e, db') \<Rightarrow> (Inl e, db')
                 | (Inr _, db') \<Rightarrow> (Inr ro, db')))"
proof -
  have "\<not> (r < 1 \<or> r > 5)" using assms by simp
  then show ?thesis
    unfolding rate_dungeon_def written_def rated_by_def Let_def
    by (simp only: if_False)
qed

lemma rate_dungeon_success:
  assumes ud: "unique_ids (dungeons_container db)" and ur: "unique_ids (ratings_container db)"
    and ok: "rate_dungeon td rn db nid did uid r cm = (Inr ro, db')"
  shows "1 \<le> r \<and> r \<le> 5"
    and "db' = recomputed td rn
                 (db\<lparr>ratings_container := upsert_rating (ratings_container db) nid did uid r cm\<rparr>) did"
proof -
  show r: "1 \<le> r \<and> r \<le> 5"
  proof (rule ccontr)
    assume "\<not> (1 \<le> r \<and> r \<le> 5)"
    then have "r < 1 \<or> r > 5" by auto
    then have "fst (rate_dungeon td rn db nid did uid r cm)
               = Inl (ValueError ''Rating must be between 1 and 5'')"
      unfolding rate_dungeon_def by (simp only: if_True fst_conv)
    with ok show False by simp
  qed
  then have step: "rate_dungeon td rn db nid did uid r cm
         = (case written (ratings_container db) nid did uid r cm of
              (Inl e, rs) \<Rightarrow> (Inl e, db\<lparr>ratings_container := rs\<rparr>)
            | (Inr ro, rs) \<Rightarrow>
                (case update_dungeon_rating td rn (db\<lparr>ratings_container := rs\<rparr>) did of
                   (Inl e, db') \<Rightarrow> (Inl e, db')
                 | (Inr _, db') \<Rightarrow> (Inr ro, db')))"
    by (simp add: rate_dungeon_step)
  obtain res rs where w: "written (ratings_container db) nid did uid r cm = (res, rs)"
    by (cases "written (ratings_container db) nid did uid r cm")
  from ok obtain ro' where res: "res = Inr ro'"
    unfolding step w by (cases res) simp_all
  from written_rating[OF ur w[unfolded res written_def]]
  have rs: "rs = upsert_rating (ratings_container db) nid did uid r cm" .
  let ?db1 = "db\<lparr>ratings_container := rs\<rparr>"
  have n: "query_items (ratings_container ?db1) (rated did) \<noteq> []"
    by (simp add: rs upsert_rated_nonempty)
  have ud1: "unique_ids (dungeons_container ?db1)" using ud by simp
  from update_dungeon_rating_cases(1)[OF ud1 n, of td rn] ok
  have "db' = recomputed td rn ?db1 did"
    unfolding step w res by auto
  then show "db' = recomputed td rn
                 (db\<lparr>ratings_container := upsert_rating (ratings_container db) nid did uid r cm\<rparr>) did"
    by (simp add: rs)
qed

lemma rate_dungeon_filed:
  assumes wf: "wf_dungeon_db db" and r: "1 \<le> r" "r \<le> 5"
  shows "\<exists>ro. rate_dungeon td rn db nid did uid r cm
              = (Inr ro, recomputed td rn
                   (db\<lparr>ratings_container := upsert_rating (ratings_container db) nid did uid r cm\<rparr>) did)"
proof -
  from wf have ud: "unique_ids (dungeons_container db)" and ur: "unique_ids (ratings_container db)"
    and fd: "list_all (\<lambda>d. partitionKey d = dungeon.creator_id (body d)) (dungeons_container db)"
    and fr: "list_all (\<lambda>d. partitionKey d = dungeon_rating.dungeon_id (body d)) (ratings_container db)"
    by (simp_all add: wf_dungeon_db_def)
  let ?rs = "upsert_rating (ratings_container db) nid did uid r cm"
  let ?db1 = "db\<lparr>ratings_container := ?rs\<rparr>"
  from written_rating_filed[OF ur fr, where did=did and uid=uid and r=r and cm=cm and nid=nid] obtain ro where
    w: "written (ratings_container db) nid did uid r cm = (Inr ro, ?rs)"
    unfolding written_def by blast
  have n: "query_items (ratings_container ?db1) (rated did) \<noteq> []"
    by (simp add: upsert_rated_nonempty)
  have ud1: "unique_ids (dungeons_container ?db1)" using ud by simp
  have fd1: "list_all (\<lambda>d. partitionKey d = dungeon.creator_id (body d)) (dungeons_container ?db1)"
    using fd by simp
  from update_dungeon_rating_cases(2)[OF ud1 n fd1, of td rn]
  show ?thesis unfolding rate_dungeon_step[OF r] w by simp
qed

lemma recomputed_ratings: "ratings_container (recomputed td rn db did) = ratings_container db"
  by (simp add: recomputed_def split: option.splits)

lemma recomputed_dungeon:
  "get_dungeon_by_id (dungeons_container (recomputed td rn db did)) did
   = map_option (aggregates td rn (ratings_container db) did)
       (get_dungeon_by_id (dungeons_container db) did)"
  by (cases "get_dungeon_by_id (dungeons_container db) did")
     (simp_all add: recomputed_def get_dungeon_by_id_amend)

text \<open>
  C1. After every successful \<open>rate_dungeon\<close> on a database with unique identifiers,
  the dungeon, when it exists, has \<open>average_rating\<close> equal to the mean of all the ratings
  now stored for it, rounded to 2 digits (\<open>round_nd (truediv total count) 2\<close>), and
  \<open>total_ratings\<close> equal to their number, both read from the container as the call
  leaves it.
\<close>

theorem rate_dungeon_recomputes:
  assumes "unique_ids (dungeons_container db)" and "unique_ids (ratings_container db)"
    and "rate_dungeon truediv round_nd db nid did uid r cm = (Inr ro, db')"
    and "get_dungeon_by_id (dungeons_container db') did = Some dg"
  shows "dungeon.average_rating dg
           = round_nd (truediv
                 (sum_list (map (\<lambda>x. rating (body x))
                    (query_items (ratings_container db')
                       (\<lambda>x. dungeon_rating.dungeon_id (body x) = did))))
                 (int (length (query_items (ratings_container db')
                       (\<lambda>x. dungeon_rating.dungeon_id (body x) = did))))) 2
       \<and> dungeon.total_ratings dg
           = int (length (query_items (ratings_container db')
                    (\<lambda>x. dungeon_rating.dungeon_id (body x) = did)))"
proof -
  note s = rate_dungeon_success[OF assms(1-3)]
  let ?db1 = "db\<lparr>ratings_container := upsert_rating (ratings_container db) nid did uid r cm\<rparr>"
  have rs: "ratings_container db' = ratings_container ?db1"
    unfolding s(2) by (rule recomputed_ratings)
  from assms(4) obtain dg0 where
    "dg = aggregates truediv round_nd (ratings_container ?db1) did dg0"
    unfolding s(2) recomputed_dungeon by auto
  then show ?thesis unfolding rs by (simp add: aggregates_def rated_def)
qed


lemma unique_id_eq:
  assumes "unique_ids c" "x \<in> set c" "y \<in> set c" "item_id y = item_id x"
  shows "y = x"
  using assms unfolding unique_ids_def by (meson distinct_map inj_onD)

lemma filter_amend_invariant:
  assumes "\<And>x. P (x\<lparr>body := f (body x)\<rparr>) = P x"
  shows "filter P (amend c iid f)
         = map (\<lambda>x. if item_id x = iid then x\<lparr>body := f (body x)\<rparr> else x) (filter P c)"
  unfolding amend_def using assms by (induction c) auto

lemma sum_list_split:
  "sum_list (map h (filter P xs))
   = sum_list (map h (filter (\<lambda>x. P x \<and> \<not> Q x) xs)) + sum_list (map h (filter (\<lambda>x. P x \<and> Q x) xs))"
  for h :: "'a \<Rightarrow> int"
  by (induction xs) auto

lemma length_split:
  "length (filter P xs)
   = length (filter (\<lambda>x. P x \<and> \<not> Q x) xs) + length (filter (\<lambda>x. P x \<and> Q x) xs)"
  by (induction xs) auto

lemma rated_split:
  "sum_list (map h (query_items rs (rated did)))
     = sum_list (map h (query_items rs (others did uid))) + sum_list (map h (query_items rs (rated_by did uid)))"
  "length (query_items rs (rated did))
     = length (query_items rs (others did uid)) + length (query_items rs (rated_by did uid))"
  for h :: "dungeon_rating doc \<Rightarrow> int"
  unfolding query_items_def rated_def others_def rated_by_def
  using sum_list_split[of h "\<lambda>d. dungeon_rating.dungeon_id (body d) = did" rs
          "\<lambda>d. dungeon_rating.user_id (body d) = uid"]
        length_split[of "\<lambda>d. dungeon_rating.dungeon_id (body d) = did" rs
          "\<lambda>d. dungeon_rating.user_id (body d) = uid"]
  by simp_all

lemma upsert_rating_spec:
  assumes u: "unique_ids rs" and o: "one_rating_each rs"
    and fresh: "query_items rs (rated_by did uid) = [] \<longrightarrow> nid \<notin> item_id ` set rs"
  shows "unique_ids (upsert_rating rs nid did uid r cm)"
    and "one_rating_each (upsert_rating rs nid did uid r cm)"
    and "\<exists>x. query_items (upsert_rating rs nid did uid r cm) (rated_by did uid) = [x]
             \<and> rating (body x) = r"
    and "query_items (upsert_rating rs nid did uid r cm) (others did uid)
         = query_items rs (others did uid)"
proof -
  let ?key = "\<lambda>d. (dungeon_rating.dungeon_id (body d), dungeon_rating.user_id (body d))"
  let ?g = "\<lambda>x. x\<lparr>rating := r, comment := cm\<rparr>"
  let ?new = "\<lparr>item_id = nid, partitionKey = did,
               body = \<lparr>dungeon_rating.dungeon_id = did, dungeon_rating.user_id = uid,
                       rating = r, comment = cm\<rparr>\<rparr>"
  have "unique_ids (upsert_rating rs nid did uid r cm)
      \<and> one_rating_each (upsert_rating rs nid did uid r cm)
      \<and> (\<exists>x. query_items (upsert_rating rs nid did uid r cm) (rated_by did uid) = [x]
             \<and> rating (body x) = r)
      \<and> query_items (upsert_rating rs nid did uid r cm) (others did uid)
         = query_items rs (others did uid)"
  proof (cases "query_items rs (rated_by did uid)")
    case Nil
    then have up: "upsert_rating rs nid did uid r cm = rs @ [?new]"
      by (simp add: upsert_rating_def)
    from Nil have none: "\<forall>x\<in>set rs. ?key x \<noteq> (did, uid)"
      by (auto simp: query_items_def filter_empty_conv rated_by_def)
    have "unique_ids (rs @ [?new])" using u fresh Nil by (simp add: unique_ids_def)
    moreover have "one_rating_each (rs @ [?new])"
      using o none by (auto simp: one_rating_each_def image_iff)
    moreover have "query_items (rs @ [?new]) (rated_by did uid) = [?new]"
      using Nil by (simp add: query_items_def rated_by_def)
    moreover have "query_items (rs @ [?new]) (others did uid) = query_items rs (others did uid)"
      by (simp add: query_items_def others_def)
    ultimately show ?thesis unfolding up by simp
  next
    case (Cons e es)
    then have up: "upsert_rating rs nid did uid r cm = amend rs (item_id e) ?g"
      by (simp add: upsert_rating_def)
    from query_hd_mem[OF Cons] have e: "e \<in> set rs" "rated_by did uid e" by simp_all
    have "rated_by did uid = (\<lambda>y. ?key y = ?key e)"
      using e(2) by (auto simp: rated_by_def fun_eq_iff)
    with filter_unique_key[of ?key rs e] o e(1)
    have single: "query_items rs (rated_by did uid) = [e]"
      by (simp add: one_rating_each_def query_items_def)
    have only: "\<And>y. y \<in> set rs \<Longrightarrow> item_id y = item_id e \<Longrightarrow> y = e"
      using unique_id_eq[OF u e(1)] by blast
    have "unique_ids (amend rs (item_id e) ?g)" using u by (simp add: unique_ids_amend)
    moreover have "map ?key (amend rs (item_id e) ?g) = map ?key rs"
      by (simp add: amend_def)
    then have "one_rating_each (amend rs (item_id e) ?g)"
      using o unfolding one_rating_each_def by simp
    moreover have "query_items (amend rs (item_id e) ?g) (rated_by did uid) = [e\<lparr>body := ?g (body e)\<rparr>]"
      unfolding query_items_def
      by (subst filter_amend_invariant)
         (simp_all add: rated_by_def single[unfolded query_items_def rated_by_def])
    moreover have "query_items (amend rs (item_id e) ?g) (others did uid) = query_items rs (others did uid)"
    proof -
      have "\<forall>y\<in>set (filter (others did uid) rs). item_id y \<noteq> item_id e"
        using only e(2) by (auto simp: others_def rated_by_def)
      then have "map (\<lambda>x. if item_id x = item_id e then x\<lparr>body := ?g (body x)\<rparr> else x)
                   (filter (others did uid) rs) = filter (others did uid) rs"
        by (intro map_idI) auto
      moreover have "filter (others did uid) (amend rs (item_id e) ?g)
            = map (\<lambda>x. if item_id x = item_id e then x\<lparr>body := ?g (body x)\<rparr> else x)
                   (filter (others did uid) rs)"
        by (rule filter_amend_invariant) (simp add: others_def)
      ultimately show ?thesis by (simp add: query_items_def)
    qed
    ultimately show ?thesis unfolding up by simp
  qed
  then show "unique_ids (upsert_rating rs nid did uid r cm)"
    and "one_rating_each (upsert_rating rs nid did uid r cm)"
    and "\<exists>x. query_items (upsert_rating rs nid did uid r cm) (rated_by did uid) = [x]
             \<and> rating (body x) = r"
    and "query_items (upsert_rating rs nid did uid r cm) (others did uid)
         = query_items rs (others did uid)"
    by blast+
qed


lemma aggregates_after_upsert:
  assumes u: "unique_ids rs" and o: "one_rating_each rs"
    and fresh: "query_items rs (rated_by did uid) = [] \<longrightarrow> nid \<notin> item_id ` set rs"
  shows "sum_list (map (\<lambda>x. rating (body x)) (query_items (upsert_rating rs nid did uid r cm) (rated did)))
         = sum_list (map (\<lambda>x. rating (body x)) (query_items rs (others did uid))) + r"
    and "length (query_items (upsert_rating rs nid did uid r cm) (rated did))
         = length (query_items rs (others did uid)) + 1"
proof -
  from upsert_rating_spec(3)[OF assms, where r=r and cm=cm] obtain x where
    x: "query_items (upsert_rating rs nid did uid r cm) (rated_by did uid) = [x]" "rating (body x) = r"
    by blast
  note same = upsert_rating_spec(4)[OF assms, where r=r and cm=cm]
  show "sum_list (map (\<lambda>x. rating (body x)) (query_items (upsert_rating rs nid did uid r cm) (rated did)))
         = sum_list (map (\<lambda>x. rating (body x)) (query_items rs (others did uid))) + r"
    unfolding rated_split(1)[where did=did and uid=uid] same x(1) using x(2) by simp
  show "length (query_items (upsert_rating rs nid did uid r cm) (rated did))
         = length (query_items rs (others did uid)) + 1"
    unfolding rated_split(2)[where did=did and uid=uid] same x(1) by simp
qed

lemma recomputed_unique:
  "unique_ids (dungeons_container (recomputed td rn db did)) = unique_ids (dungeons_container db)"
  by (simp add: recomputed_def unique_ids_amend split: option.splits)

text \<open>
  C4. On a database with unique identifiers and at most one rating per dungeon and user,
  rating a dungeon as \<open>r1\<close> and then, by the same user, as \<open>r2\<close> leaves exactly one
  rating row for the pair, holding \<open>r2\<close>; \<open>total_ratings\<close> is the same after the
  second call as after the first; and \<open>average_rating\<close> is computed from the other
  users' ratings and \<open>r2\<close> alone.
\<close>

theorem rate_dungeon_idempotent:
  assumes ud: "unique_ids (dungeons_container db)"
    and ur: "unique_ids (ratings_container db)"
    and o: "one_rating_each (ratings_container db)"
    and fresh: "nid1 \<notin> item_id ` set (ratings_container db)"
    and first: "rate_dungeon truediv round_nd db nid1 did uid r1 cm1 = (Inr ro1, db1)"
    and second: "rate_dungeon truediv round_nd db1 nid2 did uid r2 cm2 = (Inr ro2, db2)"
  shows "(\<exists>x. query_items (ratings_container db2)
                 (\<lambda>d. dungeon_rating.dungeon_id (body d) = did \<and> dungeon_rating.user_id (body d) = uid)
               = [x] \<and> rating (body x) = r2)
       \<and> map_option dungeon.total_ratings (get_dungeon_by_id (dungeons_container db2) did)
           = map_option dungeon.total_ratings (get_dungeon_by_id (dungeons_container db1) did)
       \<and> (\<forall>dg. get_dungeon_by_id (dungeons_container db2) did = Some dg
            \<longrightarrow> dungeon.average_rating dg
                = round_nd (truediv
                    (sum_list (map (\<lambda>x. rating (body x))
                       (query_items (ratings_container db)
                          (\<lambda>d. dungeon_rating.dungeon_id (body d) = did
                                \<and> dungeon_rating.user_id (body d) \<noteq> uid))) + r2)
                    (int (length
                       (query_items (ratings_container db)
                          (\<lambda>d. dungeon_rating.dungeon_id (body d) = did
                                \<and> dungeon_rating.user_id (body d) \<noteq> uid))) + 1)) 2)"
proof -
  let ?rs = "ratings_container db"
  let ?rs1 = "upsert_rating ?rs nid1 did uid r1 cm1"
  let ?rs2 = "upsert_rating ?rs1 nid2 did uid r2 cm2"
  let ?rt = "\<lambda>x. rating (body x)"
  let ?n = "int (length (query_items ?rs (others did uid)))"
  have f0: "query_items ?rs (rated_by did uid) = [] \<longrightarrow> nid1 \<notin> item_id ` set ?rs"
    using fresh by simp
  note s1 = rate_dungeon_success[OF ud ur first]
  have rs1: "ratings_container db1 = ?rs1" unfolding s1(2) by (simp add: recomputed_ratings)
  have ud1: "unique_ids (dungeons_container db1)" unfolding s1(2) using ud by (simp add: recomputed_unique)
  note p1 = upsert_rating_spec[OF ur o f0, where r=r1 and cm=cm1]
  have ur1: "unique_ids (ratings_container db1)" using p1(1) by (simp add: rs1)
  note s2 = rate_dungeon_success[OF ud1 ur1 second]
  have rs2: "ratings_container db2 = ?rs2" unfolding s2(2) by (simp add: recomputed_ratings rs1)
  have f1: "query_items ?rs1 (rated_by did uid) = [] \<longrightarrow> nid2 \<notin> item_id ` set ?rs1"
    using p1(3) by auto
  note p2 = upsert_rating_spec[OF p1(1,2) f1, where r=r2 and cm=cm2]
  note a1 = aggregates_after_upsert[OF ur o f0, where r=r1 and cm=cm1]
  note a2 = aggregates_after_upsert[OF p1(1,2) f1, where r=r2 and cm=cm2, unfolded p1(4)]
  have d1: "get_dungeon_by_id (dungeons_container db1) did
            = map_option (aggregates truediv round_nd ?rs1 did) (get_dungeon_by_id (dungeons_container db) did)"
    unfolding s1(2) recomputed_dungeon by simp
  have d2: "get_dungeon_by_id (dungeons_container db2) did
            = map_option (aggregates truediv round_nd ?rs2 did) (get_dungeon_by_id (dungeons_container db1) did)"
    unfolding s2(2) recomputed_dungeon by (simp add: rs1)
  have t1: "\<And>x. dungeon.total_ratings (aggregates truediv round_nd ?rs1 did x) = ?n + 1"
    using a1(2) by (simp add: aggregates_def)
  have t2: "\<And>x. dungeon.total_ratings (aggregates truediv round_nd ?rs2 did x) = ?n + 1"
    using a2(2) by (simp add: aggregates_def)
  have v2: "\<And>x. dungeon.average_rating (aggregates truediv round_nd ?rs2 did x)
            = round_nd (truediv (sum_list (map ?rt (query_items ?rs (others did uid))) + r2) (?n + 1)) 2"
    using a2 by (simp add: aggregates_def add.commute)
  have c1: "\<exists>x. query_items (ratings_container db2) (rated_by did uid) = [x] \<and> rating (body x) = r2"
    using p2(3) by (simp add: rs2)
  have c2: "map_option dungeon.total_ratings (get_dungeon_by_id (dungeons_container db2) did)
           = map_option dungeon.total_ratings (get_dungeon_by_id (dungeons_container db1) did)"
    unfolding d2 unfolding d1
    by (cases "get_dungeon_by_id (dungeons_container db) did") (simp_all add: t1 t2)
  have c3: "\<And>dg. get_dungeon_by_id (dungeons_container db2) did = Some dg
            \<Longrightarrow> dungeon.average_rating dg
                = round_nd (truediv (sum_list (map ?rt (query_items ?rs (others did uid))) + r2) (?n + 1)) 2"
    unfolding d2 using v2 by auto
  from c1 c2 c3 show ?thesis
    unfolding rated_by_def others_def by blast
qed

text \<open>
  C9. \<open>rate_dungeon\<close> raises its validation error exactly when the rating is below 1
  or above 5, and then writes nothing; on a well-formed database it succeeds exactly
  when the rating lies in 1..5.
\<close>

theorem rate_dungeon_range:
  "(fst (rate_dungeon truediv round_nd db nid did uid r cm)
      = Inl (ValueError ''Rating must be between 1 and 5'') \<longleftrightarrow> r < 1 \<or> r > 5)
   \<and> (r < 1 \<or> r > 5 \<longrightarrow> snd (rate_dungeon truediv round_nd db nid did uid r cm) = db)
   \<and> (wf_dungeon_db db
      \<longrightarrow> ((\<exists>ro. fst (rate_dungeon truediv round_nd db nid did uid r cm) = Inr ro)
           \<longleftrightarrow> 1 \<le> r \<and> r \<le> 5))"
proof -
  have out: "r < 1 \<or> r > 5 \<Longrightarrow> rate_dungeon truediv round_nd db nid did uid r cm
               = (Inl (ValueError ''Rating must be between 1 and 5''), db)"
    unfolding rate_dungeon_def by (simp only: if_True)
  have inside: "1 \<le> r \<Longrightarrow> r \<le> 5
      \<Longrightarrow> fst (rate_dungeon truediv round_nd db nid did uid r cm)
          \<noteq> Inl (ValueError ''Rating must be between 1 and 5'')"
    using rate_dungeon_error[where r=r and td=truediv and rn=round_nd and db=db and nid=nid and did=did and uid=uid and cm=cm] by auto
  have ok: "wf_dungeon_db db \<Longrightarrow> 1 \<le> r \<Longrightarrow> r \<le> 5
      \<Longrightarrow> \<exists>ro. fst (rate_dungeon truediv round_nd db nid did uid r cm) = Inr ro"
    using rate_dungeon_filed[where r=r and td=truediv and rn=round_nd and db=db and nid=nid and did=did and uid=uid and cm=cm] by auto
  have a: "fst (rate_dungeon truediv round_nd db nid did uid r cm)
      = Inl (ValueError ''Rating must be between 1 and 5'') \<longleftrightarrow> r < 1 \<or> r > 5"
    using out inside by (cases "r < 1 \<or> r > 5") auto
  have b: "r < 1 \<or> r > 5 \<longrightarrow> snd (rate_dungeon truediv round_nd db nid did uid r cm) = db"
    using out by auto
  have c: "wf_dungeon_db db
      \<longrightarrow> ((\<exists>ro. fst (rate_dungeon truediv round_nd db nid did uid r cm) = Inr ro)
           \<longleftrightarrow> 1 \<le> r \<and> r \<le> 5)"
    using out ok by (cases "r < 1 \<or> r > 5") auto
  from a b c show ?thesis by blast
qed


lemmas dungeon_defs = rate_dungeon_def update_dungeon_rating_def get_dungeon_by_id_def
  wf_dungeon_db_def one_rating_each_def exact_div_def half_up_def crypt_def stars_def demo_db_def

lemma demo_floors: "\<lfloor>(901::rat) / 2\<rfloor> = 450" "\<lfloor>(701::rat) / 2\<rfloor> = 350"
  by linarith+

lemma demo_first:
  "rate_dungeon exact_div half_up demo_db ''R1'' ''D1'' ''bob'' 5 None
   = (Inr (stars ''R1'' ''bob'' 5),
      \<lparr>dungeons_container = [crypt (9 / 2) 2],
       ratings_container = [stars ''R0'' ''carol'' 4, stars ''R1'' ''bob'' 5]\<rparr>)"
  by (simp add: dungeon_defs store_defs demo_floors)

lemma demo_second:
  "rate_dungeon exact_div half_up
     \<lparr>dungeons_container = [crypt (9 / 2) 2],
      ratings_container = [stars ''R0'' ''carol'' 4, stars ''R1'' ''bob'' 5]\<rparr>
     ''R2'' ''D1'' ''bob'' 3 None
   = (Inr (stars ''R1'' ''bob'' 3),
      \<lparr>dungeons_container = [crypt (7 / 2) 2],
       ratings_container = [stars ''R0'' ''carol'' 4, stars ''R1'' ''bob'' 3]\<rparr>)"
  by (simp add: dungeon_defs store_defs demo_floors)

lemma demo_db_wf: "wf_dungeon_db demo_db" "one_rating_each (ratings_container demo_db)"
  by (simp_all add: dungeon_defs store_defs)

theorem rate_dungeon_recomputes_witness:
  "unique_ids (dungeons_container demo_db) \<and> unique_ids (ratings_container demo_db)
   \<and> rate_dungeon exact_div half_up demo_db ''R1'' ''D1'' ''bob'' 5 None
       = (Inr (stars ''R1'' ''bob'' 5),
          \<lparr>dungeons_container = [crypt (9 / 2) 2],
           ratings_container = [stars ''R0'' ''carol'' 4, stars ''R1'' ''bob'' 5]\<rparr>)
   \<and> get_dungeon_by_id [crypt (9 / 2) 2] ''D1'' = Some (body (crypt (9 / 2) 2))
   \<and> dungeon.average_rating (body (crypt (9 / 2) 2)) = half_up (exact_div (4 + 5) 2) 2
   \<and> dungeon.total_ratings (body (crypt (9 / 2) 2)) = 2"
proof -
  have u: "unique_ids (dungeons_container demo_db)" "unique_ids (ratings_container demo_db)"
    using demo_db_wf(1) by (simp_all add: wf_dungeon_db_def)
  have g: "get_dungeon_by_id
             (dungeons_container \<lparr>dungeons_container = [crypt (9 / 2) 2],
                ratings_container = [stars ''R0'' ''carol'' 4, stars ''R1'' ''bob'' 5]\<rparr>) ''D1''
           = Some (body (crypt (9 / 2) 2))"
    by (simp add: get_dungeon_by_id_def crypt_def store_defs)
  from rate_dungeon_recomputes [OF u demo_first g] u demo_first g
  show ?thesis
    by (simp add: stars_def query_items_def)
qed

theorem rate_dungeon_idempotent_witness:
  "unique_ids (dungeons_container demo_db) \<and> unique_ids (ratings_container demo_db)
   \<and> one_rating_each (ratings_container demo_db)
   \<and> ''R1'' \<notin> item_id ` set (ratings_container demo_db)
   \<and> fst (rate_dungeon exact_div half_up demo_db ''R1'' ''D1'' ''bob'' 5 None)
       = Inr (stars ''R1'' ''bob'' 5)
   \<and> rate_dungeon exact_div half_up
        (snd (rate_dungeon exact_div half_up demo_db ''R1'' ''D1'' ''bob'' 5 None))
        ''R2'' ''D1'' ''bob'' 3 None
       = (Inr (stars ''R1'' ''bob'' 3),
          \<lparr>dungeons_container = [crypt (7 / 2) 2],
           ratings_container = [stars ''R0'' ''carol'' 4, stars ''R1'' ''bob'' 3]\<rparr>)
   \<and> half_up (exact_div (4 + 3) (1 + 1)) 2 = 7 / 2"
proof -
  have u: "unique_ids (dungeons_container demo_db)" "unique_ids (ratings_container demo_db)"
    using demo_db_wf(1) by (simp_all add: wf_dungeon_db_def)
  have f: "''R1'' \<notin> item_id ` set (ratings_container demo_db)"
    by (simp add: demo_db_def stars_def)
  have g: "get_dungeon_by_id
             (dungeons_container \<lparr>dungeons_container = [crypt (7 / 2) 2],
                ratings_container = [stars ''R0'' ''carol'' 4, stars ''R1'' ''bob'' 3]\<rparr>) ''D1''
           = Some (body (crypt (7 / 2) 2))"
    by (simp add: get_dungeon_by_id_def crypt_def store_defs)
  have o: "query_items (ratings_container demo_db)
             (\<lambda>d. dungeon_rating.dungeon_id (body d) = ''D1'' \<and> dungeon_rating.user_id (body d) \<noteq> ''bob'')
           = [stars ''R0'' ''carol'' 4]"
    by (simp add: demo_db_def stars_def query_items_def)
  from rate_dungeon_idempotent [OF u demo_db_wf(2) f demo_first demo_second] g
  have "dungeon.average_rating (body (crypt (7 / 2) 2)) = half_up (exact_div (4 + 3) (1 + 1)) 2"
    unfolding o by (simp add: stars_def)
  then have "half_up (exact_div (4 + 3) (1 + 1)) 2 = 7 / 2"
    by (simp add: crypt_def)
  with u demo_db_wf(2) f demo_first demo_second show ?thesis by simp
qed

theorem rate_dungeon_range_witness:
  "wf_dungeon_db demo_db
   \<and> rate_dungeon exact_div half_up demo_db ''R1'' ''D1'' ''bob'' 0 None
       = (Inl (ValueError ''Rating must be between 1 and 5''), demo_db)
   \<and> rate_dungeon exact_div half_up demo_db ''R1'' ''D1'' ''bob'' 6 None
       = (Inl (ValueError ''Rating must be between 1 and 5''), demo_db)
   \<and> (\<exists>ro. fst (rate_dungeon exact_div half_up demo_db ''R1'' ''D1'' ''bob'' 1 None) = Inr ro)
   \<and> (\<exists>ro. fst (rate_dungeon exact_div half_up demo_db ''R1'' ''D1'' ''bob'' 5 None) = Inr ro)"
  using rate_dungeon_range [of exact_div half_up demo_db "''R1''" "''D1''" "''bob''" 0 None]
    rate_dungeon_range [of exact_div half_up demo_db "''R1''" "''D1''" "''bob''" 6 None]
    rate_dungeon_range [of exact_div half_up demo_db "''R1''" "''D1''" "''bob''" 1 None]
    rate_dungeon_range [of exact_div half_up demo_db "''R1''" "''D1''" "''bob''" 5 None]
    demo_db_wf(1)
  by (simp add: prod_eq_iff)



end
